theory Spec2Isabelle
  imports Complex_Main "HOL-Library.Sublist"
begin

unbundle bit_operations_syntax

section \<open>Material exporter of Korman (korman/exporter/material.py)\<close>

text \<open>
  Python exceptions are values. \<open>ExportError\<close>, the exception class of the exporter,
  carries its message and \<open>NameError\<close> the name that is not defined; the other
  constructors are the built-in exceptions the modelled code can raise.
\<close>

datatype error =
    ExportError string
  | NameError string
  | AssertionError
  | AttributeError
  | KeyError
  | IndexError
  | ValueError
  | ZeroDivisionError

subsection \<open>Blender data read by the exporter\<close>

type_synonym vec3 = "real \<times> real \<times> real"
type_synonym color = "real \<times> real \<times> real"

text \<open>
  A Blender image datablock. Python compares datablocks by identity; the model compares the
  record, whose name is unique among the images of a file.
\<close>

record image =
  img_name :: string
  img_channels :: int
  img_use_alpha :: bool
  img_size :: "int \<times> int"

record fcurve =
  data_path :: string
  fc_id :: nat

record action =
  fcurves :: "fcurve list"
  frame_range :: "real \<times> real"

text \<open>
  \<open>bl_id.animation_data\<close> is None or an AnimData whose \<open>action\<close> is None or an
  action.
\<close>

type_synonym animation_data = "action option option"

record bl_object =
  ob_name :: string
  ob_uv_layers :: "string list"
  ob_location :: vec3
  ob_visregion_enabled :: bool

record plasma_layer =
  lp_opacity :: real
  lp_alpha_halo :: bool
  lp_anim_auto_start :: bool
  lp_anim_loop :: bool
  lp_envmap_color :: color
  lp_vis_regions :: "string list"

record environment_map =
  env_source :: string
  env_mapping :: string
  env_viewpoint_object :: "bl_object option"
  env_resolution :: int
  env_clip_start :: real
  env_clip_end :: real

record texture =
  tex_name :: string
  tex_type :: string
  tex_image :: "image option"
  tex_use_calculate_alpha :: bool
  tex_use_mipmap :: bool
  tex_use_alpha :: bool
  tex_invert_alpha :: bool
  tex_extension :: string
  tex_plasma_layer :: plasma_layer
  tex_environment_map :: environment_map
  tex_animation_data :: animation_data

record slot =
  slot_name :: string
  slot_use :: bool
  slot_texture :: "texture option"
  slot_uv_layer :: string
  slot_offset :: vec3
  slot_scale :: vec3
  slot_use_stencil :: bool
  slot_blend_type :: string

record material =
  mat_name :: string
  mat_texture_slots :: "slot option list"
  mat_use_mist :: bool
  mat_diffuse_color :: color
  mat_specular_color :: color
  mat_animation_data :: animation_data

subsection \<open>The class \<open>_Texture\<close>\<close>

record Texture =
  tk_image :: "image option"
  calc_alpha :: bool
  mipmap :: bool
  use_alpha :: bool

text \<open>
  \<open>_Texture.__init__(texture, image, use_alpha, force_calc_alpha)\<close>. The assertion
  fails when neither a texture nor an image is given; reading \<open>image.channels\<close> of a
  missing image raises AttributeError.
\<close>

definition Texture_init ::
  "texture option \<Rightarrow> image option \<Rightarrow> bool option \<Rightarrow> bool \<Rightarrow> error + Texture" where
  "Texture_init tex img use_alpha_arg force_calc_alpha =
    (if tex = None \<and> img = None then Inl AssertionError
     else
       let img' = (case tex of
                     Some t \<Rightarrow> (if img = None then tex_image t else img)
                   | None \<Rightarrow> img);
           ca = (case tex of Some t \<Rightarrow> tex_use_calculate_alpha t | None \<Rightarrow> False);
           mm = (case tex of Some t \<Rightarrow> tex_use_mipmap t | None \<Rightarrow> False)
       in if force_calc_alpha \<or> ca
          then Inr \<lparr>tk_image = img', calc_alpha = True, mipmap = mm, use_alpha = True\<rparr>
          else (case use_alpha_arg of
                  None \<Rightarrow>
                    (case img' of
                       None \<Rightarrow> Inl AttributeError
                     | Some i \<Rightarrow>
                         Inr \<lparr>tk_image = img', calc_alpha = ca, mipmap = mm,
                              use_alpha = (img_channels i = 4 \<and> img_use_alpha i)\<rparr>)
                | Some ua \<Rightarrow>
                    Inr \<lparr>tk_image = img', calc_alpha = ca, mipmap = mm, use_alpha = ua\<rparr>))"

text \<open>\<open>_Texture._update\<close>: take over the overridable flags of another copy.\<close>

definition Texture_update :: "Texture \<Rightarrow> Texture \<Rightarrow> Texture" where
  "Texture_update self other =
     (let s1 = (if use_alpha other then self\<lparr>use_alpha := True\<rparr> else self)
      in if mipmap other then s1\<lparr>mipmap := True\<rparr> else s1)"

text \<open>
  \<open>_Texture.__eq__\<close> returns True after updating \<open>self\<close> when image and
  \<open>calc_alpha\<close> agree, and falls through (None, which is false) otherwise. The result
  is the possibly updated \<open>self\<close> and the truth value.
\<close>

definition Texture_eq :: "Texture \<Rightarrow> Texture \<Rightarrow> Texture \<times> bool" where
  "Texture_eq self other =
     (if tk_image self = tk_image other
      then (if calc_alpha self = calc_alpha other
            then (Texture_update self other, True)
            else (self, False))
      else (self, False))"

text \<open>
  \<open>_Texture.__hash__\<close>: \<open>hash(self.image.name) ^ hash(self.calc_alpha)\<close>. Python's
  string hash is a parameter; \<open>hash(True) = 1\<close> and \<open>hash(False) = 0\<close>.
\<close>

definition Texture_hash :: "(string \<Rightarrow> int) \<Rightarrow> Texture \<Rightarrow> error + int" where
  "Texture_hash hash_str self =
     (case tk_image self of
        None \<Rightarrow> Inl AttributeError
      | Some i \<Rightarrow> Inr (hash_str (img_name i) XOR (if calc_alpha self then 1 else 0)))"

subsection \<open>The pending-texture table\<close>

text \<open>
  \<open>self._pending\<close> is a dict from \<open>_Texture\<close> to the list of layer keys. An entry
  holds the hash stored with the key, the key object and the value. A lookup compares
  the stored key with the probe (\<open>stored == probe\<close>) only where the hashes agree, so it is
  the stored key that \<open>__eq__\<close> updates.
\<close>

type_synonym 'l pending = "(int \<times> Texture \<times> 'l list) list"

fun dict_lookup :: "int \<Rightarrow> Texture \<Rightarrow> 'l pending \<Rightarrow> 'l pending \<times> bool" where
  "dict_lookup hv key [] = ([], False)"
| "dict_lookup hv key ((hk, k, ls) # rest) =
     (if hk = hv
      then (case Texture_eq k key of
              (k', True) \<Rightarrow> ((hk, k', ls) # rest, True)
            | (k', False) \<Rightarrow>
                (case dict_lookup hv key rest of
                   (rest', found) \<Rightarrow> ((hk, k', ls) # rest', found)))
      else (case dict_lookup hv key rest of
              (rest', found) \<Rightarrow> ((hk, k, ls) # rest', found)))"

text \<open>\<open>self._pending[key].append(layer)\<close>: look the key up again and extend its list.\<close>

fun dict_append :: "int \<Rightarrow> Texture \<Rightarrow> 'l \<Rightarrow> 'l pending \<Rightarrow> error + 'l pending" where
  "dict_append hv key l [] = Inl KeyError"
| "dict_append hv key l ((hk, k, ls) # rest) =
     (if hk = hv
      then (case Texture_eq k key of
              (k', True) \<Rightarrow> Inr ((hk, k', ls @ [l]) # rest)
            | (k', False) \<Rightarrow>
                (case dict_append hv key l rest of
                   Inl e \<Rightarrow> Inl e
                 | Inr rest' \<Rightarrow> Inr ((hk, k', ls) # rest')))
      else (case dict_append hv key l rest of
              Inl e \<Rightarrow> Inl e
            | Inr rest' \<Rightarrow> Inr ((hk, k, ls) # rest')))"

text \<open>
  The block shared by \<open>_export_texture_type_image\<close> and
  \<open>export_prepared_layer\<close>:
  \<^verbatim>\<open>
  if key not in self._pending:
      self._pending[key] = [layer.key,]
  else:
      self._pending[key].append(layer.key)
  \<close>
\<close>

definition stash :: "(string \<Rightarrow> int) \<Rightarrow> Texture \<Rightarrow> 'l \<Rightarrow> 'l pending \<Rightarrow> error + 'l pending" where
  "stash hash_str key l p =
     (case Texture_hash hash_str key of
        Inl e \<Rightarrow> Inl e
      | Inr hv \<Rightarrow>
          (case dict_lookup hv key p of
             (p1, False) \<Rightarrow> Inr (fst (dict_lookup hv key p1) @ [(hv, key, [l])])
           | (p1, True) \<Rightarrow> dict_append hv key l p1))"


subsection \<open>The engine object model (PyHSPlasma)\<close>

text \<open>
  The flag and enumeration constants of the PyHSPlasma binding are not part of the
  repository; they are parameters of the model, under the names the code uses.
\<close>

record hsplasma =
  kBlendAlpha :: int
  kBlendAlphaMult :: int
  kBlendNoTexColor :: int
  kBlendAddColorTimesAlpha :: int
  kBlendMult :: int
  kBlendAlphaTestHigh :: int
  kBlendAlphaAdd :: int
  kBlendInvertAlpha :: int
  kBlendMask :: int
  kClampTexture :: int
  kZNoZWrite :: int
  kMiscBindNext :: int
  kMiscRestartPassHere :: int
  kMiscCam2Screen :: int
  kMiscPerspProjection :: int
  kMiscUseRefractionXform :: int
  kShadeNoFog :: int
  kShadeReallyNoFog :: int
  kShadeEnvironMap :: int
  kCompNeedsBlendChannel :: int
  kUVWPosition :: int
  kUVWReflect :: int
  kStopped :: int
  kLoop :: int
  kIsTexture :: int
  kAlphaChannelFlag :: int
  kRGB8888 :: int
  kDirectXCompression :: int
  kUncompressed :: int
  kDXT1 :: int
  kDXT5 :: int
  pvMoul :: int

type_synonym key = nat
type_synonym controller = nat
type_synonym page = nat
type_synonym level_data = "nat list"

datatype hsColorRGBA = hsColorRGBA real real real real

record hsMatrix44 =
  xf_translate :: vec3
  xf_scale :: vec3

record hsGMatState =
  blendFlags :: int
  clampFlags :: int
  ZFlags :: int
  shadeFlags :: int
  miscFlags :: int

record plAnimTimeConvert =
  atc_begin :: real
  atc_end :: real
  atc_flags :: int
  atc_loopBegin :: real
  atc_loopEnd :: real

datatype layer_class = plLayer | plLayerAnimation

text \<open>The texture a layer points at: a key of one of three stores.\<close>

datatype bitmap_key = MipmapKey nat | DynamicTextMapKey nat | DynamicEnvKey nat

text \<open>
  A layer object: \<open>plLayer\<close> and \<open>plLayerAnimation\<close> share the fields of the
  layer interface; the animation fields are only written for a \<open>plLayerAnimation\<close>.
\<close>

record plLayerInterface =
  cls :: layer_class
  key_name :: string
  state :: hsGMatState
  UVWSrc :: int
  transform :: hsMatrix44
  ambient :: hsColorRGBA
  preshade :: hsColorRGBA
  runtime :: hsColorRGBA
  specular :: hsColorRGBA
  opacity :: real
  texture :: "bitmap_key option"
  underLay :: "key option"
  opacityCtl :: "controller option"
  transformCtl :: "controller option"
  timeConvert :: plAnimTimeConvert

record hsGMaterial =
  gm_name :: string
  layers :: "key list"
  compFlags :: int

datatype env_class = plDynamicEnvMap | plDynamicCamMap

text \<open>The render-target settings written on every face of an environment map.\<close>

record face_config =
  face_config :: "int option"
  face_flags :: int
  face_width :: int
  face_height :: int
  proportionalViewport :: bool
  viewportLeft :: int
  viewportTop :: int
  viewportRight :: int
  viewportBottom :: int
  ZDepth :: int

record plDynamicEnv =
  env_cls :: env_class
  env_key_name :: string
  env_bl :: string
  hither :: real
  yon :: real
  refreshRate :: real
  incCharacters :: bool
  env_color :: hsColorRGBA
  fogStart :: real
  visRegions :: "string list"
  rootNode :: "string option"
  targetNodes :: "string list"
  matLayers :: "key list"
  disableTexture :: "key option"
  camera :: "string option"
  position :: "vec3 option"
  faces :: "face_config list"
  self_face :: face_config

record plDynamicTextMap =
  dtm_key_name :: string
  dtm_bl :: string
  hasAlpha :: bool
  visWidth :: int
  visHeight :: int

record plMipmap =
  mm_name :: string
  mm_width :: int
  mm_height :: int
  mm_numLevels :: int
  mm_compType :: int
  mm_format :: int
  mm_dxtLevel :: int
  mm_levels :: "level_data list"
  mm_page :: page

subsection \<open>Collaborators of the converter\<close>

text \<open>
  What the converter reaches through \<open>bpy\<close>, the exporter and PyHSPlasma, none of it
  defined in this module: the constants, the state of freshly constructed objects, the
  scene settings, the animation converter's controller factories, the OpenGL helper of
  korlib, the power-of-two helper, the page resolver of the manager, Python's string
  hash and \<open>Path.with_suffix\<close>.
\<close>

record env =
  plasma :: hsplasma
  blank_layer :: plLayerInterface
  blank_layer_animation :: plLayerInterface
  blank_compFlags :: int
  blank_env :: "env_class \<Rightarrow> plDynamicEnv"
  utils_color :: "color \<Rightarrow> hsColorRGBA"
  world_ambient_color :: color
  world_fog_start :: real
  render_fps :: int
  data_objects :: "string \<Rightarrow> bl_object option"
  mgr_version :: int
  make_scalar_leaf_controller :: "fcurve \<Rightarrow> controller option"
  make_matrix44_controller :: "fcurve list \<Rightarrow> fcurve list \<Rightarrow> vec3 \<Rightarrow> vec3 \<Rightarrow> controller option"
  gl_has_alpha :: "image \<Rightarrow> bool"
  gl_level_data :: "image \<Rightarrow> int \<times> int \<Rightarrow> bool \<Rightarrow> nat \<Rightarrow> bool \<Rightarrow> bool \<Rightarrow> level_data"
  ensure_power_of_two :: "int \<Rightarrow> int"
  get_textures_page :: "key \<Rightarrow> page"
  hash_str :: "string \<Rightarrow> int"
  with_suffix :: "string \<Rightarrow> string \<Rightarrow> string"

subsection \<open>The state of an export session\<close>

text \<open>
  The stores hold the objects registered with the manager, one list per kind of object;
  a key is the index of its object. The other fields are the attributes of
  \<open>MaterialConverter\<close> and the warnings sent to the report.
\<close>

record converter =
  layer_objs :: "plLayerInterface list"
  materials :: "hsGMaterial list"
  env_objs :: "plDynamicEnv list"
  text_maps :: "plDynamicTextMap list"
  mipmaps :: "plMipmap list"
  obj2mat :: "bl_object \<Rightarrow> key list option"
  pending :: "key pending"
  alphatest :: "image \<Rightarrow> bool option"
  warnings :: "string list"

subsection \<open>Object registry and small helpers\<close>

definition upd_layer :: "key \<Rightarrow> (plLayerInterface \<Rightarrow> plLayerInterface) \<Rightarrow> converter \<Rightarrow> converter" where
  "upd_layer k f s = s\<lparr>layer_objs := (layer_objs s)[k := f (layer_objs s ! k)]\<rparr>"

definition upd_state :: "key \<Rightarrow> (hsGMatState \<Rightarrow> hsGMatState) \<Rightarrow> converter \<Rightarrow> converter" where
  "upd_state k f s = upd_layer k (\<lambda>L. L\<lparr>state := f (state L)\<rparr>) s"

definition upd_material :: "key \<Rightarrow> (hsGMaterial \<Rightarrow> hsGMaterial) \<Rightarrow> converter \<Rightarrow> converter" where
  "upd_material m f s = s\<lparr>materials := (materials s)[m := f (materials s ! m)]\<rparr>"

definition upd_env :: "nat \<Rightarrow> (plDynamicEnv \<Rightarrow> plDynamicEnv) \<Rightarrow> converter \<Rightarrow> converter" where
  "upd_env i f s = s\<lparr>env_objs := (env_objs s)[i := f (env_objs s ! i)]\<rparr>"

text \<open>
  Modelled from the spec: the manager's \<open>add_object\<close> is not in this module; it
  allocates a named object of the given type and returns it. The new key is the next
  index of the store.
\<close>

definition add_layer_object :: "plLayerInterface \<Rightarrow> converter \<Rightarrow> key \<times> converter" where
  "add_layer_object obj s = (length (layer_objs s), s\<lparr>layer_objs := layer_objs s @ [obj]\<rparr>)"

definition add_material_object :: "hsGMaterial \<Rightarrow> converter \<Rightarrow> key \<times> converter" where
  "add_material_object obj s = (length (materials s), s\<lparr>materials := materials s @ [obj]\<rparr>)"

definition new_plLayer :: "env \<Rightarrow> string \<Rightarrow> plLayerInterface" where
  "new_plLayer E name = (blank_layer E)\<lparr>cls := plLayer, key_name := name\<rparr>"

definition new_plLayerAnimation :: "env \<Rightarrow> string \<Rightarrow> plLayerInterface" where
  "new_plLayerAnimation E name = (blank_layer_animation E)\<lparr>cls := plLayerAnimation, key_name := name\<rparr>"

definition new_hsGMaterial :: "env \<Rightarrow> string \<Rightarrow> hsGMaterial" where
  "new_hsGMaterial E name = \<lparr>gm_name = name, layers = [], compFlags = blank_compFlags E\<rparr>"

text \<open>\<open>hsgmat.addLayer(key)\<close>\<close>

definition addLayer :: "key \<Rightarrow> key \<Rightarrow> converter \<Rightarrow> converter" where
  "addLayer hsgmat k s = upd_material hsgmat (\<lambda>m. m\<lparr>layers := layers m @ [k]\<rparr>) s"

text \<open>\<open>self._exporter().report.warn(msg)\<close>\<close>

definition warn :: "string \<Rightarrow> converter \<Rightarrow> converter" where
  "warn msg s = s\<lparr>warnings := warnings s @ [msg]\<rparr>"

text \<open>Decimal digits of a natural number, for \<open>"{}".format(idx)\<close>.\<close>

fun str_nat :: "nat \<Rightarrow> string" where
  "str_nat n = (if n < 10 then [''0123456789'' ! n]
                else str_nat (n div 10) @ [''0123456789'' ! (n mod 10)])"

declare str_nat.simps [simp del]

text \<open>\<open>s.find(sub) != -1\<close>: the substring occurs somewhere.\<close>

fun str_contains :: "string \<Rightarrow> string \<Rightarrow> bool" where
  "str_contains sub [] = (sub = [])"
| "str_contains sub (c # cs) = (prefix sub (c # cs) \<or> str_contains sub cs)"

declare str_contains.simps [simp del]

subsection \<open>\<open>_propagate_material_settings\<close>\<close>

definition propagate_material_settings :: "env \<Rightarrow> material \<Rightarrow> plLayerInterface \<Rightarrow> plLayerInterface" where
  "propagate_material_settings E bm layer =
     (let st = state layer;
          st' = (if \<not> mat_use_mist bm
                 then st\<lparr>shadeFlags := (shadeFlags st OR kShadeNoFog (plasma E))
                                          OR kShadeReallyNoFog (plasma E)\<rparr>
                 else st)
      in layer\<lparr>state := st',
               ambient := utils_color E (world_ambient_color E),
               preshade := utils_color E (mat_diffuse_color bm),
               runtime := utils_color E (mat_diffuse_color bm),
               specular := utils_color E (mat_specular_color bm)\<rparr>)"

subsection \<open>Layer animations\<close>

text \<open>
  The local function \<open>harvest_fcurves(bl_id, collection, data_path)\<close>: the extended
  collection and the action it returns.
\<close>

definition harvest_fcurves ::
  "animation_data \<Rightarrow> fcurve list \<Rightarrow> string option \<Rightarrow> fcurve list \<times> action option" where
  "harvest_fcurves anim collection dpath =
     (case anim of
        None \<Rightarrow> (collection, None)
      | Some None \<Rightarrow> (collection, None)
      | Some (Some act) \<Rightarrow>
          (case dpath of
             None \<Rightarrow> (collection @ fcurves act, Some act)
           | Some p \<Rightarrow> (collection @ filter (\<lambda>i. prefix p (data_path i)) (fcurves act), Some act)))"

text \<open>
  \<open>_export_layer_opacity_animation\<close>: at the first curve on
  \<open>plasma_layer.opacity\<close> the base layer gets the alpha blend flag, then the
  controller is requested and returned, whatever it is.
\<close>

fun export_layer_opacity_animation ::
  "env \<Rightarrow> key \<Rightarrow> fcurve list \<Rightarrow> converter \<Rightarrow> controller option \<times> converter" where
  "export_layer_opacity_animation E base_layer [] s = (None, s)"
| "export_layer_opacity_animation E base_layer (i # rest) s =
     (if data_path i = ''plasma_layer.opacity''
      then (make_scalar_leaf_controller E i,
            upd_state base_layer (\<lambda>st. st\<lparr>blendFlags := blendFlags st OR kBlendAlpha (plasma E)\<rparr>) s)
      else export_layer_opacity_animation E base_layer rest s)"

definition export_layer_transform_animation :: "env \<Rightarrow> slot \<Rightarrow> fcurve list \<Rightarrow> controller option" where
  "export_layer_transform_animation E tex_slot fcs =
     make_matrix44_controller E
       (filter (\<lambda>i. str_contains ''offset'' (data_path i)) fcs)
       (filter (\<lambda>i. str_contains ''scale'' (data_path i)) fcs)
       (slot_offset tex_slot) (slot_scale tex_slot)"

text \<open>
  The common part of \<open>_export_layer_animations\<close> once a \<open>plLayerAnimation\<close>
  exists: the underlay, the time converter and its flags.
\<close>

definition finish_layer_animation ::
  "env \<Rightarrow> plasma_layer \<Rightarrow> key \<Rightarrow> real \<times> real \<Rightarrow> plLayerInterface \<Rightarrow> plLayerInterface" where
  "finish_layer_animation E layer_props base_layer frames la =
     (let fps = real_of_int (render_fps E);
          atc0 = (timeConvert la)\<lparr>atc_begin := fst frames / fps, atc_end := snd frames / fps\<rparr>;
          atc1 = (if \<not> lp_anim_auto_start layer_props
                  then atc0\<lparr>atc_flags := atc_flags atc0 OR kStopped (plasma E)\<rparr> else atc0);
          atc2 = (if lp_anim_loop layer_props
                  then atc1\<lparr>atc_flags := atc_flags atc1 OR kLoop (plasma E),
                            atc_loopBegin := atc_begin atc1, atc_loopEnd := atc_end atc1\<rparr>
                  else atc1)
      in la\<lparr>underLay := Some base_layer, timeConvert := atc2\<rparr>)"

text \<open>
  The curves gathered from the material (those of this texture slot) and from the
  texture, with the two actions.
\<close>

definition gather_fcurves :: "material \<Rightarrow> texture \<Rightarrow> nat \<Rightarrow> fcurve list \<times> action option \<times> action option" where
  "gather_fcurves bm tex idx =
     (case harvest_fcurves (mat_animation_data bm) []
             (Some (''texture_slots['' @ str_nat idx @ '']'')) of
        (fcs0, mat_action) \<Rightarrow>
          (case harvest_fcurves (tex_animation_data tex) fcs0 None of
             (fcs, tex_action) \<Rightarrow> (fcs, mat_action, tex_action)))"

text \<open>
  \<open>setattr(layer_animation, attr, ctrl)\<close> for the controllers that are not None.
\<close>

definition attach_controllers ::
  "controller option \<Rightarrow> controller option \<Rightarrow> plLayerInterface \<Rightarrow> plLayerInterface" where
  "attach_controllers opacity_ctl transform_ctl L =
     (let L1 = (if opacity_ctl = None then L else L\<lparr>opacityCtl := opacity_ctl\<rparr>)
      in if transform_ctl = None then L1 else L1\<lparr>transformCtl := transform_ctl\<rparr>)"

definition export_layer_animations ::
  "env \<Rightarrow> material \<Rightarrow> slot \<Rightarrow> nat \<Rightarrow> key \<Rightarrow> converter \<Rightarrow> error + key \<times> converter" where
  "export_layer_animations E bm tex_slot idx base_layer s =
     (case slot_texture tex_slot of
        None \<Rightarrow> Inl AttributeError
      | Some tex \<Rightarrow>
     (case gather_fcurves bm tex idx of
        (fcs, mat_action, tex_action) \<Rightarrow>
          if fcs = [] then Inr (base_layer, s)
          else
            (case export_layer_opacity_animation E base_layer fcs s of
               (opacity_ctl, s1) \<Rightarrow>
                 let transform_ctl = export_layer_transform_animation E tex_slot fcs
                 in if opacity_ctl = None \<and> transform_ctl = None then Inr (base_layer, s1)
                    else
                      (case add_layer_object
                              (new_plLayerAnimation E (key_name (layer_objs s1 ! base_layer) @ ''_LayerAnim'')) s1 of
                         (la, s2) \<Rightarrow>
                           let s3 = upd_layer la (attach_controllers opacity_ctl transform_ctl) s2
                           in if render_fps E = 0 then Inl ZeroDivisionError
                              else
                                (case (case tex_action of Some a \<Rightarrow> Some a | None \<Rightarrow> mat_action) of
                                   None \<Rightarrow> Inl AttributeError
                                 | Some act \<Rightarrow>
                                     Inr (la, upd_layer la
                                                (finish_layer_animation E (tex_plasma_layer tex) base_layer
                                                   (frame_range act)) s3))))))"

subsection \<open>Environment maps\<close>

definition quoted :: "string \<Rightarrow> string" where
  "quoted n = CHR 0x27 # n @ [CHR 0x27]"

text \<open>
  \<open>raise ExportError(msg)\<close> as this module evaluates it. The module has
  \<open>from . import explosions\<close> and never binds the name \<open>ExportError\<close>, which the
  other modules of the exporter import; so the lookup of the name raises NameError
  before the exception with its message is made.
\<close>

definition raise_ExportError :: "string \<Rightarrow> error" where
  "raise_ExportError msg = NameError ''ExportError''"

text \<open>
  Modelled from the spec: the manager's \<open>find_object(type, name, scope)\<close> is not in
  this module; it returns the object registered under that type and name for the scope
  of the source object, or none.
\<close>

fun find_env :: "env_class \<Rightarrow> string \<Rightarrow> string \<Rightarrow> plDynamicEnv list \<Rightarrow> nat \<Rightarrow> nat option" where
  "find_env c bl name [] i = None"
| "find_env c bl name (e # es) i =
     (if env_cls e = c \<and> env_bl e = bl \<and> env_key_name e = name then Some i
      else find_env c bl name es (Suc i))"

text \<open>The loop over \<open>texture.plasma_layer.vis_regions\<close>.\<close>

fun resolve_vis_regions :: "env \<Rightarrow> string \<Rightarrow> string list \<Rightarrow> error + string list" where
  "resolve_vis_regions E tname [] = Inr []"
| "resolve_vis_regions E tname (r # rs) =
     (case data_objects E r of
        None \<Rightarrow> Inl (raise_ExportError (quoted tname @ '': VisControl '' @ quoted r @ '' not found''))
      | Some rgn \<Rightarrow>
          if \<not> ob_visregion_enabled rgn
          then Inl (raise_ExportError (quoted tname @ '': '' @ quoted r @ '' is not a VisControl''))
          else (case resolve_vis_regions E tname rs of
                  Inl e \<Rightarrow> Inl e
                | Inr ks \<Rightarrow> Inr (ob_name rgn # ks)))"

definition configure_face :: "env \<Rightarrow> int \<Rightarrow> face_config \<Rightarrow> face_config" where
  "configure_face E eRes f =
     f\<lparr>face_config := Some (kRGB8888 (plasma E)),
       face_flags := (face_flags f OR kIsTexture (plasma E)) AND NOT (kAlphaChannelFlag (plasma E)),
       face_width := eRes, face_height := eRes,
       proportionalViewport := False,
       viewportLeft := 0, viewportTop := 0, viewportRight := eRes, viewportBottom := eRes,
       ZDepth := 24\<rparr>"

text \<open>
  \<open>export_dynamic_env(bo, hsgmat, layer, texture, pl_class)\<close>. The layer may be
  None; scene objects and visibility regions are referred to by the name of their Blender
  object. First the case of a map already exported for the viewpoint.
\<close>

definition reuse_dynamic_env :: "bl_object \<Rightarrow> key option \<Rightarrow> nat \<Rightarrow> converter \<Rightarrow> error + nat \<times> converter" where
  "reuse_dynamic_env bo layer i s =
     (if env_cls (env_objs s ! i) = plDynamicCamMap
      then (case layer of
              None \<Rightarrow> Inl AttributeError
            | Some k \<Rightarrow>
                Inr (i, upd_env i (\<lambda>e. e\<lparr>targetNodes := targetNodes e @ [ob_name bo],
                                          matLayers := matLayers e @ [k]\<rparr>) s))
      else Inr (i, s))"

text \<open>The new object with its general settings and visibility regions.\<close>

definition new_dynamic_env ::
  "env \<Rightarrow> bl_object \<Rightarrow> texture \<Rightarrow> env_class \<Rightarrow> string \<Rightarrow> string list \<Rightarrow> plDynamicEnv" where
  "new_dynamic_env E bo tex pl_class name regions =
     (blank_env E pl_class)
       \<lparr>env_cls := pl_class, env_key_name := name, env_bl := ob_name bo,
        hither := env_clip_start (tex_environment_map tex),
        yon := env_clip_end (tex_environment_map tex),
        refreshRate := (if env_source (tex_environment_map tex) = ''ANIMATED'' then 0.01 else 0.0),
        incCharacters := True,
        env_color := utils_color E (lp_envmap_color (tex_plasma_layer tex)),
        fogStart := world_fog_start E,
        visRegions := regions\<rparr>"

text \<open>The branch of a \<open>plDynamicCamMap\<close>, whose only face is the map itself.\<close>

definition setup_cam_map ::
  "env \<Rightarrow> bl_object \<Rightarrow> bl_object \<Rightarrow> key \<Rightarrow> int \<Rightarrow> plDynamicEnv \<Rightarrow> converter \<Rightarrow> converter" where
  "setup_cam_map E bo viewpt k eRes e1 s =
     (let L = layer_objs s ! k;
          fake = (new_plLayer E (ob_name viewpt @ ''_DisabledDynEnvMap''))
                   \<lparr>ambient := ambient L, preshade := preshade L,
                    runtime := runtime L, specular := specular L\<rparr>
      in case add_layer_object fake s of
           (fk, s1) \<Rightarrow>
             (let e3 = e1\<lparr>rootNode := Some (ob_name viewpt),
                          targetNodes := targetNodes e1 @ [ob_name bo],
                          matLayers := matLayers e1 @ [k],
                          disableTexture := Some fk,
                          self_face := configure_face E eRes (self_face e1)\<rparr>;
                  s2 = s1\<lparr>env_objs := env_objs s1 @ [e3]\<rparr>
              in if camera e3 = None
                 then upd_layer k
                        (\<lambda>L. L\<lparr>UVWSrc := kUVWPosition (plasma E),
                                state := (state L)\<lparr>miscFlags :=
                                  miscFlags (state L) OR
                                  (kMiscCam2Screen (plasma E) OR kMiscPerspProjection (plasma E))\<rparr>\<rparr>) s2
                 else s2))"

text \<open>The branch of a \<open>plDynamicEnvMap\<close>: its faces and the map itself are configured.\<close>

definition setup_env_map ::
  "env \<Rightarrow> bl_object \<Rightarrow> key option \<Rightarrow> int \<Rightarrow> plDynamicEnv \<Rightarrow> converter \<Rightarrow> converter" where
  "setup_env_map E viewpt layer eRes e1 s =
     (let e2 = e1\<lparr>position := Some (ob_location viewpt),
                  faces := map (configure_face E eRes) (faces e1),
                  self_face := configure_face E eRes (self_face e1)\<rparr>;
          s1 = s\<lparr>env_objs := env_objs s @ [e2]\<rparr>
      in case layer of
           None \<Rightarrow> s1
         | Some k \<Rightarrow>
             upd_layer k
               (\<lambda>L. L\<lparr>UVWSrc := kUVWReflect (plasma E),
                       state := (state L)\<lparr>miscFlags :=
                         miscFlags (state L) OR kMiscUseRefractionXform (plasma E)\<rparr>\<rparr>) s1)"

definition export_dynamic_env ::
  "env \<Rightarrow> bl_object \<Rightarrow> key option \<Rightarrow> texture \<Rightarrow> env_class \<Rightarrow> converter \<Rightarrow> error + nat \<times> converter" where
  "export_dynamic_env E bo layer tex pl_class s =
     (let bl_env = tex_environment_map tex;
          viewpt = (case env_viewpoint_object bl_env of None \<Rightarrow> bo | Some v \<Rightarrow> v);
          name = ob_name viewpt @ ''_DynEnvMap''
      in case find_env pl_class (ob_name bo) name (env_objs s) 0 of
           Some i \<Rightarrow> reuse_dynamic_env bo layer i s
         | None \<Rightarrow>
             (let eRes = ensure_power_of_two E (env_resolution bl_env)
              in case resolve_vis_regions E (tex_name tex) (lp_vis_regions (tex_plasma_layer tex)) of
                   Inl err \<Rightarrow> Inl err
                 | Inr regions \<Rightarrow>
                     if pl_class = plDynamicCamMap
                     then (case layer of
                             None \<Rightarrow> Inl AttributeError
                           | Some k \<Rightarrow>
                               Inr (length (env_objs s),
                                    setup_cam_map E bo viewpt k eRes
                                      (new_dynamic_env E bo tex pl_class name regions) s))
                     else Inr (length (env_objs s),
                               setup_env_map E viewpt layer eRes
                                 (new_dynamic_env E bo tex pl_class name regions) s)))"

text \<open>
  \<open>_export_texture_type_environment_map\<close>. For a source other than STATIC and
  ANIMATED the code warns and sets \<open>pl_env = None\<close>; the last line then reads
  \<open>pl_env.key\<close>, which raises AttributeError on None.
\<close>

definition set_layer_texture_of :: "key \<Rightarrow> nat option \<Rightarrow> converter \<Rightarrow> error + converter" where
  "set_layer_texture_of layer pl_env s =
     (case pl_env of
        None \<Rightarrow> Inl AttributeError
      | Some i \<Rightarrow> Inr (upd_layer layer (\<lambda>L. L\<lparr>texture := Some (DynamicEnvKey i)\<rparr>) s))"

definition export_texture_type_environment_map ::
  "env \<Rightarrow> bl_object \<Rightarrow> key \<Rightarrow> slot \<Rightarrow> converter \<Rightarrow> error + converter" where
  "export_texture_type_environment_map E bo layer slt s =
     (case slot_texture slt of
        None \<Rightarrow> Inl AttributeError
      | Some tex \<Rightarrow>
          (let bl_env = tex_environment_map tex
           in case (if env_source bl_env \<in> {''STATIC'', ''ANIMATED''}
                    then
                      (let pl_class = (if env_mapping bl_env = ''PLANE'' \<and> mgr_version E \<ge> pvMoul (plasma E)
                                       then plDynamicCamMap else plDynamicEnvMap)
                       in case export_dynamic_env E bo (Some layer) tex pl_class s of
                            Inl err \<Rightarrow> Inl err
                          | Inr (i, s1) \<Rightarrow> Inr (Some i, s1))
                    else
                      Inr (None,
                           warn (''IMAGE EnvironmentMaps are not supported. '' @
                                 quoted (key_name (layer_objs s ! layer)) @ '' will not be exported!'') s)) of
                Inl err \<Rightarrow> Inl err
              | Inr (pl_env, s1) \<Rightarrow>
                  set_layer_texture_of layer pl_env
                    (upd_state layer
                       (\<lambda>st. st\<lparr>shadeFlags := shadeFlags st OR kShadeEnvironMap (plasma E)\<rparr>) s1)))"

subsection \<open>Image textures\<close>

text \<open>\<open>_test_image_alpha\<close>, with its cache.\<close>

definition test_image_alpha :: "env \<Rightarrow> image \<Rightarrow> converter \<Rightarrow> bool \<times> converter" where
  "test_image_alpha E img s =
     (case alphatest s img of
        Some r \<Rightarrow> (r, s)
      | None \<Rightarrow>
          (let r = (if img_channels img \<noteq> 4 then False
                    else if \<not> img_use_alpha img then False
                    else gl_has_alpha E img)
           in (r, s\<lparr>alphatest := (alphatest s)(img \<mapsto> r)\<rparr>)))"

text \<open>
  Modelled from the spec: the manager's \<open>find_create_object\<close> is not in this module;
  it returns the object of that type and name for the scope if there is one and
  allocates it otherwise.
\<close>

fun find_text_map :: "string \<Rightarrow> string \<Rightarrow> plDynamicTextMap list \<Rightarrow> nat \<Rightarrow> nat option" where
  "find_text_map bl name [] i = None"
| "find_text_map bl name (d # ds) i =
     (if dtm_bl d = bl \<and> dtm_key_name d = name then Some i else find_text_map bl name ds (Suc i))"

definition find_create_text_map :: "bl_object \<Rightarrow> string \<Rightarrow> converter \<Rightarrow> nat \<times> converter" where
  "find_create_text_map bo name s =
     (case find_text_map (ob_name bo) name (text_maps s) 0 of
        Some i \<Rightarrow> (i, s)
      | None \<Rightarrow>
          (length (text_maps s),
           s\<lparr>text_maps := text_maps s @
               [\<lparr>dtm_key_name = name, dtm_bl = ob_name bo, hasAlpha = False,
                 visWidth = 0, visHeight = 0\<rparr>]\<rparr>))"

text \<open>The blend and clamp flags of \<open>_export_texture_type_image\<close>.\<close>

definition image_layer_flags :: "env \<Rightarrow> slot \<Rightarrow> texture \<Rightarrow> bool \<Rightarrow> hsGMatState \<Rightarrow> hsGMatState" where
  "image_layer_flags E slt tex has_alpha st =
     (let st1 = (if \<not> slot_use_stencil slt
                 then
                   (let a = (if tex_use_alpha tex \<and> has_alpha
                             then (if slot_blend_type slt = ''ADD''
                                   then st\<lparr>blendFlags := blendFlags st OR kBlendAlphaAdd (plasma E)\<rparr>
                                   else if slot_blend_type slt = ''MULTIPLY''
                                   then st\<lparr>blendFlags := blendFlags st OR kBlendAlphaMult (plasma E)\<rparr>
                                   else st\<lparr>blendFlags := blendFlags st OR kBlendAlpha (plasma E)\<rparr>)
                             else st)
                    in if tex_invert_alpha tex \<and> has_alpha
                       then a\<lparr>blendFlags := blendFlags a OR kBlendInvertAlpha (plasma E)\<rparr>
                       else a)
                 else st)
      in if tex_extension tex = ''CLIP''
         then st1\<lparr>clampFlags := clampFlags st1 OR kClampTexture (plasma E)\<rparr>
         else st1)"

text \<open>
  \<open>has_alpha\<close>: the pixel test is only made when neither calculated alpha nor a stencil
  decides; the warning for an opaque image follows.
\<close>

definition image_has_alpha :: "env \<Rightarrow> slot \<Rightarrow> texture \<Rightarrow> converter \<Rightarrow> bool \<times> converter" where
  "image_has_alpha E slt tex s =
     (case tex_image tex of
        Some img \<Rightarrow>
          (case (if tex_use_calculate_alpha tex \<or> slot_use_stencil slt then (True, s)
                 else test_image_alpha E img s) of
             (has_alpha, s0) \<Rightarrow>
               (has_alpha,
                if (img_use_alpha img \<and> tex_use_alpha tex) \<and> \<not> has_alpha
                then warn (quoted (tex_name tex) @ '' wants to use alpha, but '' @
                           quoted (img_name img) @ '' is opaque'') s0
                else s0))
      | None \<Rightarrow> (True, s))"

text \<open>A texture without image becomes a \<open>plDynamicTextMap\<close>.\<close>

definition bind_dynamic_text_map :: "bl_object \<Rightarrow> key \<Rightarrow> texture \<Rightarrow> converter \<Rightarrow> converter" where
  "bind_dynamic_text_map bo layer tex s =
     (case find_create_text_map bo (key_name (layer_objs s ! layer) @ ''_DynText'') s of
        (d, s1) \<Rightarrow>
          upd_layer layer (\<lambda>L. L\<lparr>texture := Some (DynamicTextMapKey d)\<rparr>)
            (s1\<lparr>text_maps := (text_maps s1)
                   [d := (text_maps s1 ! d)\<lparr>hasAlpha := tex_use_alpha tex,
                                            visWidth := 1024, visHeight := 1024\<rparr>]\<rparr>))"

definition export_texture_type_image ::
  "env \<Rightarrow> bl_object \<Rightarrow> key \<Rightarrow> slot \<Rightarrow> converter \<Rightarrow> error + converter" where
  "export_texture_type_image E bo layer slt s =
     (case slot_texture slt of
        None \<Rightarrow> Inl AttributeError
      | Some tex \<Rightarrow>
          (case image_has_alpha E slt tex s of
             (has_alpha, s1) \<Rightarrow>
               (let s2 = upd_state layer (image_layer_flags E slt tex has_alpha) s1
                in case tex_image tex of
                     None \<Rightarrow> Inr (bind_dynamic_text_map bo layer tex s2)
                   | Some img \<Rightarrow>
                       (case Texture_init (Some tex) None (Some has_alpha) (slot_use_stencil slt) of
                          Inl err \<Rightarrow> Inl err
                        | Inr tkey \<Rightarrow>
                            (case stash (hash_str E) tkey layer (pending s2) of
                               Inl err \<Rightarrow> Inl err
                             | Inr p \<Rightarrow> Inr (s2\<lparr>pending := p\<rparr>))))))"

text \<open>\<open>_export_texture_type_none\<close> does nothing.\<close>

definition export_texture_type_none :: "converter \<Rightarrow> error + converter" where
  "export_texture_type_none s = Inr s"

text \<open>
  The dispatch \<open>self._tex_exporters[texture.type](bo, hsgmat, layer, slot)\<close>; a type
  that is not a key of the table raises KeyError.
\<close>

definition tex_exporters :: "string list" where
  "tex_exporters = [''ENVIRONMENT_MAP'', ''IMAGE'', ''NONE'']"

definition export_texture_type ::
  "env \<Rightarrow> bl_object \<Rightarrow> key \<Rightarrow> slot \<Rightarrow> texture \<Rightarrow> converter \<Rightarrow> error + converter" where
  "export_texture_type E bo layer slt tex s =
     (if tex_type tex = ''ENVIRONMENT_MAP'' then export_texture_type_environment_map E bo layer slt s
      else if tex_type tex = ''IMAGE'' then export_texture_type_image E bo layer slt s
      else if tex_type tex = ''NONE'' then export_texture_type_none s
      else Inl KeyError)"

subsection \<open>\<open>_export_texture_slot\<close>\<close>

text \<open>The index of the first UV layer of the object with the slot's name, if any.\<close>

fun uv_index :: "string list \<Rightarrow> string \<Rightarrow> nat \<Rightarrow> nat option" where
  "uv_index [] n i = None"
| "uv_index (u # us) n i = (if u = n then Some i else uv_index us n (Suc i))"

text \<open>Allocation of the layer, material settings, UVW channel and transform.\<close>

definition begin_slot_layer :: "env \<Rightarrow> bl_object \<Rightarrow> material \<Rightarrow> slot \<Rightarrow> converter \<Rightarrow> key \<times> converter" where
  "begin_slot_layer E bo bm slt s =
     (case add_layer_object (new_plLayer E (mat_name bm @ ''_'' @ slot_name slt)) s of
        (layer, s1) \<Rightarrow>
          (layer,
           upd_layer layer
             (\<lambda>L. let L1 = propagate_material_settings E bm L;
                       L2 = (case uv_index (ob_uv_layers bo) (slot_uv_layer slt) 0 of
                               Some i \<Rightarrow> L1\<lparr>UVWSrc := int i\<rparr>
                             | None \<Rightarrow> L1)
                   in L2\<lparr>transform := \<lparr>xf_translate = slot_offset slt, xf_scale = slot_scale slt\<rparr>\<rparr>) s1))"

text \<open>The flags of a stencil layer, set before the next slot is exported.\<close>

definition stencil_layer_flags :: "env \<Rightarrow> texture \<Rightarrow> plLayerInterface \<Rightarrow> plLayerInterface" where
  "stencil_layer_flags E tex L =
     (let st = state L;
          st1 = st\<lparr>blendFlags := blendFlags st OR
                   ((kBlendAlpha (plasma E) OR kBlendAlphaMult (plasma E)) OR kBlendNoTexColor (plasma E))\<rparr>;
          st2 = (if tex_type tex = ''BLEND''
                 then st1\<lparr>clampFlags := clampFlags st1 OR kClampTexture (plasma E)\<rparr> else st1);
          st3 = st2\<lparr>ZFlags := ZFlags st2 OR kZNoZWrite (plasma E)\<rparr>
      in L\<lparr>state := st3, ambient := hsColorRGBA 1 1 1 1\<rparr>)"

text \<open>
  After the next slot is exported, the last layer of the material is flagged as binding
  with the stencil.
\<close>

definition bind_next_flags :: "env \<Rightarrow> hsGMatState \<Rightarrow> hsGMatState" where
  "bind_next_flags E st =
     (let st1 = st\<lparr>miscFlags := miscFlags st OR
                   (kMiscBindNext (plasma E) OR kMiscRestartPassHere (plasma E))\<rparr>
      in if blendFlags st1 AND kBlendMask (plasma E) = 0
         then st1\<lparr>blendFlags := blendFlags st1 OR kBlendAlpha (plasma E)\<rparr>
         else st1)"

definition bind_previous_layer :: "env \<Rightarrow> key \<Rightarrow> converter \<Rightarrow> error + converter" where
  "bind_previous_layer E hsgmat s =
     (if layers (materials s ! hsgmat) = [] then Inl IndexError
      else Inr (upd_state (last (layers (materials s ! hsgmat))) (bind_next_flags E) s))"

text \<open>The flags of a layer that is not a stencil.\<close>

definition standard_layer_flags :: "env \<Rightarrow> slot \<Rightarrow> hsGMatState \<Rightarrow> hsGMatState" where
  "standard_layer_flags E slt st =
     (if slot_blend_type slt = ''ADD''
      then st\<lparr>blendFlags := blendFlags st OR kBlendAddColorTimesAlpha (plasma E)\<rparr>
      else if slot_blend_type slt = ''MULTIPLY''
      then st\<lparr>blendFlags := blendFlags st OR kBlendMult (plasma E)\<rparr>
      else st)"

text \<open>The custom layer properties: opacity and alpha halo.\<close>

definition apply_layer_props :: "env \<Rightarrow> plasma_layer \<Rightarrow> plLayerInterface \<Rightarrow> plLayerInterface" where
  "apply_layer_props E layer_props L =
     (let st = state L;
          st1 = (if lp_opacity layer_props < 100
                 then st\<lparr>blendFlags := blendFlags st OR kBlendAlpha (plasma E)\<rparr> else st);
          st2 = (if lp_alpha_halo layer_props
                 then st1\<lparr>blendFlags := blendFlags st1 OR kBlendAlphaTestHigh (plasma E)\<rparr> else st1)
      in L\<lparr>opacity := lp_opacity layer_props / 100, state := st2\<rparr>)"

text \<open>
  The end of \<open>_export_texture_slot\<close>, from the custom layer properties on: the
  texture type exporter, the layer animations and \<open>hsgmat.addLayer\<close>.
\<close>

definition finish_texture_slot ::
  "env \<Rightarrow> bl_object \<Rightarrow> material \<Rightarrow> key \<Rightarrow> slot \<Rightarrow> nat \<Rightarrow> key \<Rightarrow> nat \<Rightarrow> converter
     \<Rightarrow> error + nat \<times> converter" where
  "finish_texture_slot E bo bm hsgmat slt idx layer num_exported s =
     (case slot_texture slt of
        None \<Rightarrow> Inl AttributeError
      | Some tex \<Rightarrow>
          (case export_texture_type E bo layer slt tex
                  (upd_layer layer (apply_layer_props E (tex_plasma_layer tex)) s) of
             Inl err \<Rightarrow> Inl err
           | Inr s1 \<Rightarrow>
               (case export_layer_animations E bm slt idx layer s1 of
                  Inl err \<Rightarrow> Inl err
                | Inr (final, s2) \<Rightarrow> Inr (num_exported, addLayer hsgmat final s2))))"

text \<open>
  The raise of a stencil slot without a next slot:
  \<open>raise ExportError("Texture Slot '{}' wants to be a stencil, but there are no more TextureSlots.".format(slot.name))\<close>
\<close>

definition stencil_error :: "slot \<Rightarrow> error" where
  "stencil_error slt =
     raise_ExportError (''Texture Slot '' @ quoted (slot_name slt) @
                        '' wants to be a stencil, but there are no more TextureSlots.'')"

function export_texture_slot ::
  "env \<Rightarrow> bl_object \<Rightarrow> material \<Rightarrow> key \<Rightarrow> slot list \<Rightarrow> nat \<Rightarrow> converter \<Rightarrow> error + nat \<times> converter" where
  "export_texture_slot E bo bm hsgmat slots idx s =
     (if length slots \<le> idx then Inl IndexError
      else
        (case begin_slot_layer E bo bm (slots ! idx) s of
           (layer, s1) \<Rightarrow>
             if slot_use_stencil (slots ! idx)
             then
               (case slot_texture (slots ! idx) of
                  None \<Rightarrow> Inl AttributeError
                | Some tex \<Rightarrow>
                    if length slots = idx + 1 then Inl (stencil_error (slots ! idx))
                    else
                      (case export_texture_slot E bo bm hsgmat slots (idx + 1)
                              (upd_layer layer (stencil_layer_flags E tex)
                                 (upd_material hsgmat
                                    (\<lambda>m. m\<lparr>compFlags := compFlags m OR kCompNeedsBlendChannel (plasma E)\<rparr>) s1)) of
                         Inl err \<Rightarrow> Inl err
                       | Inr (n, s3) \<Rightarrow>
                           (case bind_previous_layer E hsgmat s3 of
                              Inl err \<Rightarrow> Inl err
                            | Inr s4 \<Rightarrow>
                                finish_texture_slot E bo bm hsgmat (slots ! idx) idx layer 2 s4)))
             else
               finish_texture_slot E bo bm hsgmat (slots ! idx) idx layer 1
                 (upd_state layer (standard_layer_flags E (slots ! idx)) s1)))"
  by pat_completeness auto
termination
  by (relation "measure (\<lambda>(E, bo, bm, hsgmat, slots, idx, s). length slots - idx)") auto

declare export_texture_slot.simps [simp del]

subsection \<open>\<open>export_material\<close>, \<open>export_waveset_material\<close> and \<open>get_materials\<close>\<close>

text \<open>
  The slots that qualify: not None, enabled, with a texture whose type has an exporter.
\<close>

definition slot_qualifies :: "slot option \<Rightarrow> bool" where
  "slot_qualifies so =
     (case so of
        None \<Rightarrow> False
      | Some sl \<Rightarrow>
          slot_use sl \<and>
          (case slot_texture sl of None \<Rightarrow> False | Some t \<Rightarrow> tex_type t \<in> set tex_exporters))"

definition qualifying_slots :: "material \<Rightarrow> slot list" where
  "qualifying_slots bm = map the (filter slot_qualifies (mat_texture_slots bm))"

text \<open>
  The loop \<open>while i < len(slots): i += self._export_texture_slot(bo, bm, hsgmat, slots, i)\<close>.
  It ends because every call that returns reports one or two slots.
\<close>

function export_slots ::
  "env \<Rightarrow> bl_object \<Rightarrow> material \<Rightarrow> key \<Rightarrow> slot list \<Rightarrow> nat \<Rightarrow> converter \<Rightarrow> error + converter" where
  "export_slots E bo bm hsgmat slots i s =
     (if i < length slots
      then (case export_texture_slot E bo bm hsgmat slots i s of
              Inl err \<Rightarrow> Inl err
            | Inr (n, s') \<Rightarrow> export_slots E bo bm hsgmat slots (i + n) s')
      else Inr s)"
  by pat_completeness auto
termination
  apply (relation "measure (\<lambda>(E, bo, bm, hsgmat, slots, i, s). length slots - i)")
   apply simp
  subgoal for E bo bm hsgmat slots i s x2 n s'
    apply (subgoal_tac "0 < n")
     apply simp
    apply (subst (asm) export_texture_slot.simps)
    apply (auto simp add: finish_texture_slot_def split: if_splits prod.splits option.splits sum.splits)
    done
  done

declare export_slots.simps [simp del]

text \<open>The default layer of a material without layers.\<close>

definition add_auto_layer :: "env \<Rightarrow> material \<Rightarrow> key \<Rightarrow> converter \<Rightarrow> converter" where
  "add_auto_layer E bm hsgmat s =
     (case add_layer_object (new_plLayer E (mat_name bm @ ''_AutoLayer'')) s of
        (layer, s1) \<Rightarrow>
          addLayer hsgmat layer (upd_layer layer (propagate_material_settings E bm) s1))"

text \<open>The cache \<open>self._obj2mat\<close>: append to the list of the object or start one.\<close>

definition cache_material :: "bl_object \<Rightarrow> key \<Rightarrow> converter \<Rightarrow> converter" where
  "cache_material bo hsgmat s =
     (case obj2mat s bo of
        Some ks \<Rightarrow> s\<lparr>obj2mat := (obj2mat s)(bo \<mapsto> ks @ [hsgmat])\<rparr>
      | None \<Rightarrow> s\<lparr>obj2mat := (obj2mat s)(bo \<mapsto> [hsgmat])\<rparr>)"

definition export_material :: "env \<Rightarrow> bl_object \<Rightarrow> material \<Rightarrow> converter \<Rightarrow> error + key \<times> converter" where
  "export_material E bo bm s =
     (case add_material_object (new_hsGMaterial E (mat_name bm)) s of
        (hsgmat, s1) \<Rightarrow>
          (case export_slots E bo bm hsgmat (qualifying_slots bm) 0 s1 of
             Inl err \<Rightarrow> Inl err
           | Inr s2 \<Rightarrow>
               (let s3 = (if layers (materials s2 ! hsgmat) = []
                          then add_auto_layer E bm hsgmat s2 else s2)
                in Inr (hsgmat, cache_material bo hsgmat s3))))"

definition export_waveset_material :: "env \<Rightarrow> bl_object \<Rightarrow> material \<Rightarrow> converter \<Rightarrow> key \<times> converter" where
  "export_waveset_material E bo bm s =
     (let unique_name = mat_name bm @ ''_WaveSet7''
      in case add_material_object (new_hsGMaterial E unique_name) s of
           (hsgmat, s1) \<Rightarrow>
             (case add_layer_object (new_plLayer E unique_name) s1 of
                (layer, s2) \<Rightarrow>
                  (hsgmat,
                   addLayer hsgmat layer
                     (upd_state layer
                        (\<lambda>st. st\<lparr>blendFlags := blendFlags st OR kBlendAlpha (plasma E)\<rparr>)
                        (upd_layer layer (propagate_material_settings E bm) s2)))))"

text \<open>\<open>get_materials\<close>: \<open>self._obj2mat[bo]\<close> raises KeyError for a missing key.\<close>

definition get_materials :: "bl_object \<Rightarrow> converter \<Rightarrow> error + key list" where
  "get_materials bo s = (case obj2mat s bo of None \<Rightarrow> Inl KeyError | Some ks \<Rightarrow> Inr ks)"

text \<open>\<open>export_prepared_layer(layer, image)\<close> for an externally prepared image.\<close>

definition export_prepared_layer :: "env \<Rightarrow> key \<Rightarrow> image \<Rightarrow> converter \<Rightarrow> error + converter" where
  "export_prepared_layer E layer img s =
     (case Texture_init None (Some img) None False of
        Inl err \<Rightarrow> Inl err
      | Inr tkey \<Rightarrow>
          (case stash (hash_str E) tkey layer (pending s) of
             Inl err \<Rightarrow> Inl err
           | Inr p \<Rightarrow> Inr (s\<lparr>pending := p\<rparr>)))"

subsection \<open>\<open>finalize\<close>\<close>

text \<open>\<open>_Texture.__str__\<close>\<close>

definition Texture_str :: "env \<Rightarrow> Texture \<Rightarrow> error + string" where
  "Texture_str E k =
     (case tk_image k of
        None \<Rightarrow> Inl AttributeError
      | Some img \<Rightarrow>
          (let name = (if mipmap k then with_suffix E (img_name img) ''.dds''
                       else with_suffix E (img_name img) ''.bmp'')
           in Inr (if calc_alpha k then ''ALPHAGEN_'' @ name else name)))"

text \<open>
  \<open>math.floor(math.log(x, 2))\<close> in exact arithmetic; \<open>math.log\<close> raises ValueError
  for an argument that is not positive.
\<close>

definition math_floor_log2 :: "int \<Rightarrow> error + int" where
  "math_floor_log2 x = (if x \<le> 0 then Inl ValueError else Inr \<lfloor>log 2 (real_of_int x)\<rfloor>)"

text \<open>
  \<open>numLevels = math.floor(math.log(max(eWidth, eHeight), 2)) + 1 if key.mipmap else 1\<close>
\<close>

definition raw_num_levels :: "Texture \<Rightarrow> int \<Rightarrow> int \<Rightarrow> error + int" where
  "raw_num_levels k eWidth eHeight =
     (if mipmap k
      then (case math_floor_log2 (max eWidth eHeight) of
              Inl err \<Rightarrow> Inl err
            | Inr f \<Rightarrow> Inr (f + 1))
      else Inr 1)"

text \<open>The workaround: \<open>if key.mipmap: numLevels = max(numLevels - 2, 2)\<close>\<close>

definition clamp_num_levels :: "Texture \<Rightarrow> int \<Rightarrow> int" where
  "clamp_num_levels k numLevels = (if mipmap k then max (numLevels - 2) 2 else numLevels)"

text \<open>
  Modelled from the spec: \<open>store_in_mipmap\<close> of korlib's OpenGL helper is not in this
  module; it copies the extracted level data into the bitmap.
\<close>

definition store_in_mipmap :: "plMipmap \<Rightarrow> level_data list \<Rightarrow> int \<Rightarrow> plMipmap" where
  "store_in_mipmap mm data compression = mm\<lparr>mm_levels := data\<rparr>"

text \<open>
  The settings of the bitmap of one pending texture and its level data: the lines of
  \<open>finalize\<close> before the loop over the layers. The image is resized to the adjusted
  dimensions before the level data is read and reloaded afterwards; the level data is a
  function of the image and of those dimensions.
\<close>

definition prepare_mipmap :: "env \<Rightarrow> Texture \<Rightarrow> error + plMipmap" where
  "prepare_mipmap E k =
     (case Texture_str E k of
        Inl err \<Rightarrow> Inl err
      | Inr name \<Rightarrow>
          (case tk_image k of
             None \<Rightarrow> Inl AttributeError
           | Some img \<Rightarrow>
               (let eWidth = ensure_power_of_two E (fst (img_size img));
                    eHeight = ensure_power_of_two E (snd (img_size img))
                in case raw_num_levels k eWidth eHeight of
                     Inl err \<Rightarrow> Inl err
                   | Inr raw \<Rightarrow>
                       (let compression = (if mipmap k then kDirectXCompression (plasma E)
                                           else kUncompressed (plasma E));
                            dxt = (if use_alpha k \<or> calc_alpha k then kDXT5 (plasma E)
                                   else kDXT1 (plasma E));
                            numLevels = clamp_num_levels k raw;
                            fmt = (compression = kUncompressed (plasma E));
                            data = map (\<lambda>i. gl_level_data E img (eWidth, eHeight) (mipmap k) i
                                               (calc_alpha k) fmt) [0..<nat numLevels]
                        in Inr (store_in_mipmap
                                  \<lparr>mm_name = name, mm_width = eWidth, mm_height = eHeight,
                                   mm_numLevels = numLevels, mm_compType = compression,
                                   mm_format = kRGB8888 (plasma E), mm_dxtLevel = dxt,
                                   mm_levels = [], mm_page = 0\<rparr> data compression)))))"

text \<open>
  The loop over the layers of one pending texture. \<open>pages\<close> maps a page to the bitmap
  made for it; a page met for the first time gets a new bitmap, added to that page.
\<close>

fun assign_mipmaps ::
  "env \<Rightarrow> plMipmap \<Rightarrow> key list \<Rightarrow> (page \<Rightarrow> nat option) \<Rightarrow> converter \<Rightarrow> converter" where
  "assign_mipmaps E mm [] pages s = s"
| "assign_mipmaps E mm (layer # rest) pages s =
     (let pg = get_textures_page E layer
      in case pages pg of
           None \<Rightarrow>
             (let m = length (mipmaps s);
                  s1 = s\<lparr>mipmaps := mipmaps s @ [mm\<lparr>mm_page := pg\<rparr>]\<rparr>
              in assign_mipmaps E mm rest (pages(pg \<mapsto> m))
                   (upd_layer layer (\<lambda>L. L\<lparr>texture := Some (MipmapKey m)\<rparr>) s1))
         | Some m \<Rightarrow>
             assign_mipmaps E mm rest pages
               (upd_layer layer (\<lambda>L. L\<lparr>texture := Some (MipmapKey m)\<rparr>) s))"

definition finalize_texture :: "env \<Rightarrow> Texture \<Rightarrow> key list \<Rightarrow> converter \<Rightarrow> error + converter" where
  "finalize_texture E k lyrs s =
     (case prepare_mipmap E k of
        Inl err \<Rightarrow> Inl err
      | Inr mm \<Rightarrow> Inr (assign_mipmaps E mm lyrs Map.empty s))"

fun finalize_entries :: "env \<Rightarrow> key pending \<Rightarrow> converter \<Rightarrow> error + converter" where
  "finalize_entries E [] s = Inr s"
| "finalize_entries E ((hv, k, lyrs) # rest) s =
     (case finalize_texture E k lyrs s of
        Inl err \<Rightarrow> Inl err
      | Inr s' \<Rightarrow> finalize_entries E rest s')"

definition finalize :: "env \<Rightarrow> converter \<Rightarrow> error + converter" where
  "finalize E s = finalize_entries E (pending s) s"

subsection \<open>Vocabulary of the statements\<close>

text \<open>
  Two \<open>_Texture\<close> values have the same identity when \<open>__eq__\<close> holds of them: same
  image and same \<open>calc_alpha\<close>.
\<close>

definition same_identity :: "Texture \<Rightarrow> Texture \<Rightarrow> bool" where
  "same_identity a b = (tk_image a = tk_image b \<and> calc_alpha a = calc_alpha b)"

definition identity_of :: "Texture \<Rightarrow> image option \<times> bool" where
  "identity_of k = (tk_image k, calc_alpha k)"


definition entry_layers :: "int \<times> Texture \<times> 'l list \<Rightarrow> 'l list" where
  "entry_layers e = snd (snd e)"





text \<open>
  Between two states, the layer objects outside a set of keys are kept and none is
  removed; materials and the material cache are kept.
\<close>

definition layers_frame :: "key set \<Rightarrow> converter \<Rightarrow> converter \<Rightarrow> bool" where
  "layers_frame K s s' =
     (length (layer_objs s) \<le> length (layer_objs s') \<and>
      (\<forall>j<length (layer_objs s). j \<notin> K \<longrightarrow> layer_objs s' ! j = layer_objs s ! j))"

definition keeps_materials :: "converter \<Rightarrow> converter \<Rightarrow> bool" where
  "keeps_materials s s' = (materials s' = materials s \<and> obj2mat s' = obj2mat s)"

text \<open>The layer object of a slot as \<open>begin_slot_layer\<close> leaves it.\<close>

definition initial_slot_layer :: "env \<Rightarrow> bl_object \<Rightarrow> material \<Rightarrow> slot \<Rightarrow> plLayerInterface" where
  "initial_slot_layer E bo bm slt =
     (let L1 = propagate_material_settings E bm (new_plLayer E (mat_name bm @ ''_'' @ slot_name slt));
          L2 = (case uv_index (ob_uv_layers bo) (slot_uv_layer slt) 0 of
                  Some i \<Rightarrow> L1\<lparr>UVWSrc := int i\<rparr>
                | None \<Rightarrow> L1)
      in L2\<lparr>transform := \<lparr>xf_translate = slot_offset slt, xf_scale = slot_scale slt\<rparr>\<rparr>)"

text \<open>The state in which the slot after a stencil is exported.\<close>

definition stencil_begin :: "env \<Rightarrow> bl_object \<Rightarrow> material \<Rightarrow> key \<Rightarrow> slot \<Rightarrow> texture \<Rightarrow> converter \<Rightarrow> converter" where
  "stencil_begin E bo bm hsgmat slt tex s =
     upd_layer (length (layer_objs s)) (stencil_layer_flags E tex)
       (upd_material hsgmat
          (\<lambda>m. m\<lparr>compFlags := compFlags m OR kCompNeedsBlendChannel (plasma E)\<rparr>)
          (snd (begin_slot_layer E bo bm slt s)))"

text \<open>
  What a returning call of the slot exporter does to the state: old layer objects, the
  material cache and the other materials are kept, and the material gains layers that
  are new objects.
\<close>

definition slot_exported :: "key \<Rightarrow> key list \<Rightarrow> converter \<Rightarrow> converter \<Rightarrow> bool" where
  "slot_exported hsgmat new s s' =
     (layers_frame {} s s' \<and> obj2mat s' = obj2mat s \<and>
      length (materials s') = length (materials s) \<and>
      (\<forall>j. j \<noteq> hsgmat \<longrightarrow> materials s' ! j = materials s ! j) \<and>
      new \<noteq> [] \<and>
      layers (materials s' ! hsgmat) = layers (materials s ! hsgmat) @ new \<and>
      (\<forall>x\<in>set new. length (layer_objs s) \<le> x \<and> x < length (layer_objs s')))"

text \<open>
  A session: the calls of \<open>export_material\<close> and \<open>export_waveset_material\<close> in
  order, with the keys they return. An exception ends the export.
\<close>

datatype call = ExportMaterial bl_object material | ExportWavesetMaterial bl_object material

fun run_calls :: "env \<Rightarrow> call list \<Rightarrow> converter \<Rightarrow> error + key list \<times> converter" where
  "run_calls E [] s = Inr ([], s)"
| "run_calls E (ExportMaterial bo bm # cs) s =
     (case export_material E bo bm s of
        Inl err \<Rightarrow> Inl err
      | Inr (k, s1) \<Rightarrow>
          (case run_calls E cs s1 of
             Inl err \<Rightarrow> Inl err
           | Inr (ks, s2) \<Rightarrow> Inr (k # ks, s2)))"
| "run_calls E (ExportWavesetMaterial bo bm # cs) s =
     (case export_waveset_material E bo bm s of
        (k, s1) \<Rightarrow>
          (case run_calls E cs s1 of
             Inl err \<Rightarrow> Inl err
           | Inr (ks, s2) \<Rightarrow> Inr (k # ks, s2)))"

text \<open>The keys returned by the calls of \<open>export_material\<close> for an object, in order.\<close>

fun material_keys_of :: "bl_object \<Rightarrow> call list \<Rightarrow> key list \<Rightarrow> key list" where
  "material_keys_of bo (ExportMaterial b bm # cs) (k # ks) =
     (if b = bo then k # material_keys_of bo cs ks else material_keys_of bo cs ks)"
| "material_keys_of bo (ExportWavesetMaterial b bm # cs) (k # ks) = material_keys_of bo cs ks"
| "material_keys_of bo cs ks = []"

text \<open>The layer of a slot that is not a stencil, before its texture is exported.\<close>

definition plain_slot_layer :: "env \<Rightarrow> bl_object \<Rightarrow> material \<Rightarrow> slot \<Rightarrow> plasma_layer \<Rightarrow> plLayerInterface" where
  "plain_slot_layer E bo bm slt layer_props =
     apply_layer_props E layer_props
       ((initial_slot_layer E bo bm slt)
          \<lparr>state := standard_layer_flags E slt (state (initial_slot_layer E bo bm slt))\<rparr>)"

text \<open>
  The dictionary \<open>pages\<close> of \<open>finalize\<close> is sound for a bitmap: each page it knows
  maps to a stored bitmap that is the prepared bitmap on that page.
\<close>

definition pages_ok :: "plMipmap \<Rightarrow> (page \<Rightarrow> nat option) \<Rightarrow> converter \<Rightarrow> bool" where
  "pages_ok mm pages s =
     (\<forall>pg m. pages pg = Some m \<longrightarrow> m < length (mipmaps s) \<and> mipmaps s ! m = mm\<lparr>mm_page := pg\<rparr>)"

text \<open>
  What holds of two layers of a pending texture after \<open>finalize\<close>: each points at a
  stored bitmap that is the prepared bitmap on the layer's page, and the two bitmaps are
  one object exactly when the pages are equal.
\<close>

definition shares_by_page :: "env \<Rightarrow> plMipmap \<Rightarrow> key \<Rightarrow> key \<Rightarrow> converter \<Rightarrow> bool" where
  "shares_by_page E mm l1 l2 s =
     (\<exists>m1 m2. texture (layer_objs s ! l1) = Some (MipmapKey m1) \<and>
              texture (layer_objs s ! l2) = Some (MipmapKey m2) \<and>
              m1 < length (mipmaps s) \<and> m2 < length (mipmaps s) \<and>
              mipmaps s ! m1 = mm\<lparr>mm_page := get_textures_page E l1\<rparr> \<and>
              mipmaps s ! m2 = mm\<lparr>mm_page := get_textures_page E l2\<rparr> \<and>
              (m1 = m2 \<longleftrightarrow> get_textures_page E l1 = get_textures_page E l2))"

subsection \<open>Concrete inputs\<close>

definition wit_image :: image where
  "wit_image = \<lparr>img_name = ''wall.png'', img_channels = 4, img_use_alpha = True, img_size = (256, 256)\<rparr>"

definition wit_key :: "bool \<Rightarrow> bool \<Rightarrow> Texture" where
  "wit_key mm ua = \<lparr>tk_image = Some wit_image, calc_alpha = False, mipmap = mm, use_alpha = ua\<rparr>"

text \<open>
  An assignment of separate bits to the flag constants and of separate numbers to the
  enumeration constants, blank objects without flags, and simple collaborators, for
  evaluating the model on concrete inputs.
\<close>

definition wit_plasma :: hsplasma where
  "wit_plasma =
     \<lparr>kBlendAlpha = 0x2, kBlendAlphaMult = 0x4000, kBlendNoTexColor = 0x20000,
      kBlendAddColorTimesAlpha = 0x10, kBlendMult = 0x4, kBlendAlphaTestHigh = 0x4000000,
      kBlendAlphaAdd = 0x8000, kBlendInvertAlpha = 0x1000, kBlendMask = 0xF5E,
      kClampTexture = 0x3, kZNoZWrite = 0x10, kMiscBindNext = 0x400,
      kMiscRestartPassHere = 0x8000, kMiscCam2Screen = 0x400000,
      kMiscPerspProjection = 0x2000, kMiscUseRefractionXform = 0x200000,
      kShadeNoFog = 0x100, kShadeReallyNoFog = 0x20000, kShadeEnvironMap = 0x4,
      kCompNeedsBlendChannel = 0x2000, kUVWPosition = 0x20000, kUVWReflect = 0x30000,
      kStopped = 0x1, kLoop = 0x2, kIsTexture = 0x100, kAlphaChannelFlag = 0x1,
      kRGB8888 = 0, kDirectXCompression = 1, kUncompressed = 0, kDXT1 = 1, kDXT5 = 5,
      pvMoul = 3\<rparr>"

definition wit_blank_state :: hsGMatState where
  "wit_blank_state = \<lparr>blendFlags = 0, clampFlags = 0, ZFlags = 0, shadeFlags = 0, miscFlags = 0\<rparr>"

definition wit_blank_layer :: plLayerInterface where
  "wit_blank_layer =
     \<lparr>cls = plLayer, key_name = [], state = wit_blank_state, UVWSrc = 0,
      transform = \<lparr>xf_translate = (0, 0, 0), xf_scale = (1, 1, 1)\<rparr>,
      ambient = hsColorRGBA 0 0 0 1, preshade = hsColorRGBA 0 0 0 1,
      runtime = hsColorRGBA 0 0 0 1, specular = hsColorRGBA 0 0 0 1,
      opacity = 1, texture = None, underLay = None, opacityCtl = None, transformCtl = None,
      timeConvert = \<lparr>atc_begin = 0, atc_end = 0, atc_flags = 0, atc_loopBegin = 0, atc_loopEnd = 0\<rparr>\<rparr>"

definition wit_blank_face :: face_config where
  "wit_blank_face =
     \<lparr>face_config = None, face_flags = 0, face_width = 0, face_height = 0,
      proportionalViewport = True, viewportLeft = 0, viewportTop = 0, viewportRight = 0,
      viewportBottom = 0, ZDepth = 0\<rparr>"

definition wit_blank_env :: "env_class \<Rightarrow> plDynamicEnv" where
  "wit_blank_env c =
     \<lparr>env_cls = c, env_key_name = [], env_bl = [], hither = 0, yon = 0, refreshRate = 0,
      incCharacters = False, env_color = hsColorRGBA 0 0 0 1, fogStart = 0, visRegions = [],
      rootNode = None, targetNodes = [], matLayers = [], disableTexture = None, camera = None,
      position = None,
      faces = (if c = plDynamicEnvMap then replicate 6 wit_blank_face else []),
      self_face = wit_blank_face\<rparr>"

definition wit_env :: env where
  "wit_env =
     \<lparr>plasma = wit_plasma, blank_layer = wit_blank_layer, blank_layer_animation = wit_blank_layer,
      blank_compFlags = 0, blank_env = wit_blank_env,
      utils_color = (\<lambda>c. hsColorRGBA (fst c) (fst (snd c)) (snd (snd c)) 1),
      world_ambient_color = (0, 0, 0), world_fog_start = 0, render_fps = 30,
      data_objects = (\<lambda>n. None), mgr_version = 3,
      make_scalar_leaf_controller = (\<lambda>c. None),
      make_matrix44_controller = (\<lambda>p sc off scl. None),
      gl_has_alpha = (\<lambda>i. True),
      gl_level_data = (\<lambda>i d m lvl ca fmt. [lvl]),
      ensure_power_of_two = (\<lambda>v. v),
      get_textures_page = (\<lambda>k. k mod 2),
      hash_str = (\<lambda>n. int (length n)),
      with_suffix = (\<lambda>n sfx. takeWhile (\<lambda>c. c \<noteq> CHR ''.'') n @ sfx)\<rparr>"

definition wit_converter :: converter where
  "wit_converter =
     \<lparr>layer_objs = [], materials = [], env_objs = [], text_maps = [], mipmaps = [],
      obj2mat = (\<lambda>b. None), pending = [], alphatest = (\<lambda>i. None), warnings = []\<rparr>"

definition wit_mipmap :: plMipmap where
  "wit_mipmap =
     \<lparr>mm_name = ''wall.dds'', mm_width = 256, mm_height = 256, mm_numLevels = 7,
      mm_compType = 1, mm_format = 0, mm_dxtLevel = 1,
      mm_levels = [[0], [1], [2], [3], [4], [5], [6]], mm_page = 0\<rparr>"

definition wit_props :: plasma_layer where
  "wit_props =
     \<lparr>lp_opacity = 100, lp_alpha_halo = False, lp_anim_auto_start = True, lp_anim_loop = False,
      lp_envmap_color = (1, 1, 1), lp_vis_regions = []\<rparr>"

definition wit_environment_map :: environment_map where
  "wit_environment_map =
     \<lparr>env_source = ''IMAGE_FILE'', env_mapping = ''CUBE'', env_viewpoint_object = None,
      env_resolution = 256, env_clip_start = 1, env_clip_end = 100\<rparr>"

definition wit_texture :: texture where
  "wit_texture =
     \<lparr>tex_name = ''Tex'', tex_type = ''NONE'', tex_image = None,
      tex_use_calculate_alpha = False, tex_use_mipmap = False, tex_use_alpha = False,
      tex_invert_alpha = False, tex_extension = ''REPEAT'', tex_plasma_layer = wit_props,
      tex_environment_map = wit_environment_map, tex_animation_data = None\<rparr>"

definition wit_slot :: slot where
  "wit_slot =
     \<lparr>slot_name = ''Slot'', slot_use = True, slot_texture = Some wit_texture,
      slot_uv_layer = ''UVMap'', slot_offset = (0, 0, 0), slot_scale = (1, 1, 1),
      slot_use_stencil = False, slot_blend_type = ''MIX''\<rparr>"

definition wit_bo :: bl_object where
  "wit_bo =
     \<lparr>ob_name = ''Cube'', ob_uv_layers = [''UVMap''], ob_location = (0, 0, 0),
      ob_visregion_enabled = False\<rparr>"

definition wit_material :: "slot option list \<Rightarrow> material" where
  "wit_material slots =
     \<lparr>mat_name = ''Mat'', mat_texture_slots = slots, mat_use_mist = True,
      mat_diffuse_color = (1, 1, 1), mat_specular_color = (1, 1, 1), mat_animation_data = None\<rparr>"

definition wit_session :: "call list" where
  "wit_session =
     [ExportMaterial wit_bo (wit_material []),
      ExportWavesetMaterial wit_bo (wit_material []),
      ExportMaterial wit_bo (wit_material [])]"

definition wit_stencil_slot :: slot where
  "wit_stencil_slot = wit_slot\<lparr>slot_name := ''Mask'', slot_use_stencil := True\<rparr>"

definition wit_envmap_slot :: slot where
  "wit_envmap_slot = wit_slot\<lparr>slot_texture := Some (wit_texture\<lparr>tex_type := ''ENVIRONMENT_MAP''\<rparr>)\<rparr>"

definition wit_opacity_slot :: "real \<Rightarrow> bool \<Rightarrow> slot" where
  "wit_opacity_slot op halo =
     wit_slot\<lparr>slot_texture :=
       Some (wit_texture\<lparr>tex_plasma_layer := wit_props\<lparr>lp_opacity := op, lp_alpha_halo := halo\<rparr>\<rparr>)\<rparr>"

definition wit_action :: "string \<Rightarrow> action" where
  "wit_action path = \<lparr>fcurves = [\<lparr>data_path = path, fc_id = 0\<rparr>], frame_range = (1, 10)\<rparr>"

definition wit_animated_slot :: "string \<Rightarrow> slot" where
  "wit_animated_slot path =
     wit_slot\<lparr>slot_texture := Some (wit_texture\<lparr>tex_animation_data := Some (Some (wit_action path))\<rparr>)\<rparr>"

definition wit_one_layer :: converter where
  "wit_one_layer = wit_converter\<lparr>layer_objs := [wit_blank_layer]\<rparr>"

definition wit_one_material :: converter where
  "wit_one_material = wit_converter\<lparr>materials := [new_hsGMaterial wit_env ''Mat'']\<rparr>"

definition wit_stencil_slots :: "slot list" where
  "wit_stencil_slots = [wit_stencil_slot, wit_slot]"

definition wit_pending_state :: converter where
  "wit_pending_state =
     wit_converter\<lparr>layer_objs := [wit_blank_layer, wit_blank_layer, wit_blank_layer],
                    pending := [(8, wit_key True False, [0, 1, 2])]\<rparr>"

section \<open>Properties\<close>

subsection \<open>The pending-texture table\<close>

lemma same_identity_refl [simp]: "same_identity a a"
  by (simp add: same_identity_def)

lemma same_identity_sym: "same_identity a b \<Longrightarrow> same_identity b a"
  by (simp add: same_identity_def)


lemma same_identity_update [simp]: "same_identity (Texture_update k key) x = same_identity k x"
  by (simp add: same_identity_def Texture_update_def Let_def)



lemma Texture_update_idem [simp]: "Texture_update (Texture_update k key) key = Texture_update k key"
  by (simp add: Texture_update_def Let_def)

lemma use_alpha_update [simp]: "use_alpha (Texture_update k key) = (use_alpha k \<or> use_alpha key)"
  by (simp add: Texture_update_def Let_def)

lemma mipmap_update [simp]: "mipmap (Texture_update k key) = (mipmap k \<or> mipmap key)"
  by (simp add: Texture_update_def Let_def)





lemma same_identity_update2 [simp]: "same_identity x (Texture_update k key) = same_identity x k"
  by (simp add: same_identity_def Texture_update_def Let_def)


lemma identity_of_update [simp]: "identity_of (Texture_update k key) = identity_of k"
  by (simp add: identity_of_def Texture_update_def Let_def)














subsection \<open>Mip level count\<close>

lemma math_floor_log2_256: "math_floor_log2 256 = Inr 8"
  by (simp add: math_floor_log2_def floor_log_eq_powr_iff)

lemma prepare_mipmap_fields:
  assumes "prepare_mipmap E k = Inr mm"
  shows "\<exists>img raw. tk_image k = Some img \<and>
           mm_width mm = ensure_power_of_two E (fst (img_size img)) \<and>
           mm_height mm = ensure_power_of_two E (snd (img_size img)) \<and>
           raw_num_levels k (mm_width mm) (mm_height mm) = Inr raw \<and>
           mm_numLevels mm = clamp_num_levels k raw"
proof -
  from assms obtain name where n: "Texture_str E k = Inr name"
    by (auto simp add: prepare_mipmap_def split: sum.splits)
  from assms n obtain img where i: "tk_image k = Some img"
    by (auto simp add: prepare_mipmap_def split: option.splits)
  from assms n i obtain raw where r:
    "raw_num_levels k (ensure_power_of_two E (fst (img_size img))) (ensure_power_of_two E (snd (img_size img))) = Inr raw"
    by (auto simp add: prepare_mipmap_def Let_def split: sum.splits)
  from assms n i r show ?thesis
    by (auto simp add: prepare_mipmap_def Let_def store_in_mipmap_def)
qed

lemma raw_num_levels_formula:
  "raw_num_levels k w h = Inr raw \<Longrightarrow>
     raw = (if mipmap k then \<lfloor>log 2 (real_of_int (max w h))\<rfloor> + 1 else 1)"
  by (auto simp add: raw_num_levels_def math_floor_log2_def split: if_splits)

text \<open>
  C4. The bitmap that \<open>finalize\<close> prepares for a pending texture has the adjusted
  dimensions; with mipmaps requested its level count is
  \<open>floor(log2(max(width, height))) + 1\<close> of those dimensions, less 2 and at least 2,
  and 1 otherwise. For 256 by 256 the formula gives 9 and the clamp 7.
\<close>

theorem finalize_mip_level_count:
  "(prepare_mipmap E k = Inr mm \<longrightarrow>
      (\<exists>img. tk_image k = Some img \<and>
         mm_width mm = ensure_power_of_two E (fst (img_size img)) \<and>
         mm_height mm = ensure_power_of_two E (snd (img_size img))) \<and>
      mm_numLevels mm =
        (if mipmap k
         then max (\<lfloor>log 2 (real_of_int (max (mm_width mm) (mm_height mm)))\<rfloor> + 1 - 2) 2
         else 1)) \<and>
   (mipmap k \<longrightarrow> raw_num_levels k 256 256 = Inr 9 \<and> clamp_num_levels k 9 = 7)"
proof (intro conjI impI)
  assume p: "prepare_mipmap E k = Inr mm"
  from prepare_mipmap_fields[OF p] obtain img raw where f:
    "tk_image k = Some img"
    "mm_width mm = ensure_power_of_two E (fst (img_size img))"
    "mm_height mm = ensure_power_of_two E (snd (img_size img))"
    "raw_num_levels k (mm_width mm) (mm_height mm) = Inr raw"
    "mm_numLevels mm = clamp_num_levels k raw"
    by blast
  show "\<exists>img. tk_image k = Some img \<and>
         mm_width mm = ensure_power_of_two E (fst (img_size img)) \<and>
         mm_height mm = ensure_power_of_two E (snd (img_size img))"
    using f(1,2,3) by blast
  show "mm_numLevels mm =
        (if mipmap k
         then max (\<lfloor>log 2 (real_of_int (max (mm_width mm) (mm_height mm)))\<rfloor> + 1 - 2) 2
         else 1)"
    using raw_num_levels_formula[OF f(4)] f(5) by (simp add: clamp_num_levels_def)
next
  assume "mipmap k"
  then show "raw_num_levels k 256 256 = Inr 9" by (simp add: raw_num_levels_def math_floor_log2_256)
next
  assume "mipmap k"
  then show "clamp_num_levels k 9 = 7" by (simp add: clamp_num_levels_def)
qed

lemma wit_prepare:
  "prepare_mipmap wit_env (wit_key True False) =
     Inr \<lparr>mm_name = ''wall.dds'', mm_width = 256, mm_height = 256, mm_numLevels = 7,
          mm_compType = 1, mm_format = 0, mm_dxtLevel = 1,
          mm_levels = [[0], [1], [2], [3], [4], [5], [6]], mm_page = 0\<rparr>"
  by (simp add: prepare_mipmap_def Texture_str_def wit_key_def wit_image_def wit_env_def wit_plasma_def
      raw_num_levels_def math_floor_log2_256 clamp_num_levels_def store_in_mipmap_def Let_def
      upt_rec[of _ "numeral _"] upt_rec[of 0] )

theorem finalize_mip_level_count_witness:
  "prepare_mipmap wit_env (wit_key True False) = Inr wit_mipmap \<and>
   mipmap (wit_key True False) \<and>
   mm_numLevels wit_mipmap = 7 \<and>
   raw_num_levels (wit_key True False) 256 256 = Inr 9 \<and>
   clamp_num_levels (wit_key True False) 9 = 7"
proof -
  have run: "prepare_mipmap wit_env (wit_key True False) = Inr wit_mipmap"
    by (simp add: wit_prepare wit_mipmap_def)
  have mm: "mipmap (wit_key True False)" by (simp add: wit_key_def)
  from finalize_mip_level_count[of wit_env "wit_key True False" wit_mipmap] run mm
  have "raw_num_levels (wit_key True False) 256 256 = Inr 9 \<and> clamp_num_levels (wit_key True False) 9 = 7"
    by blast
  moreover have "mm_numLevels wit_mipmap = 7" by (simp add: wit_mipmap_def)
  ultimately show ?thesis using run mm by blast
qed

subsection \<open>Frame conditions\<close>

lemma upd_layer_fields [simp]:
  "layer_objs (upd_layer k f s) = (layer_objs s)[k := f (layer_objs s ! k)]"
  "materials (upd_layer k f s) = materials s"
  "env_objs (upd_layer k f s) = env_objs s"
  "text_maps (upd_layer k f s) = text_maps s"
  "mipmaps (upd_layer k f s) = mipmaps s"
  "obj2mat (upd_layer k f s) = obj2mat s"
  "pending (upd_layer k f s) = pending s"
  "alphatest (upd_layer k f s) = alphatest s"
  "warnings (upd_layer k f s) = warnings s"
  by (simp_all add: upd_layer_def)

lemma upd_state_fields [simp]:
  "layer_objs (upd_state k g s) = (layer_objs s)[k := (layer_objs s ! k)\<lparr>state := g (state (layer_objs s ! k))\<rparr>]"
  "materials (upd_state k g s) = materials s"
  "env_objs (upd_state k g s) = env_objs s"
  "text_maps (upd_state k g s) = text_maps s"
  "mipmaps (upd_state k g s) = mipmaps s"
  "obj2mat (upd_state k g s) = obj2mat s"
  "pending (upd_state k g s) = pending s"
  "alphatest (upd_state k g s) = alphatest s"
  "warnings (upd_state k g s) = warnings s"
  by (simp_all add: upd_state_def)

lemma upd_material_fields [simp]:
  "layer_objs (upd_material m f s) = layer_objs s"
  "materials (upd_material m f s) = (materials s)[m := f (materials s ! m)]"
  "env_objs (upd_material m f s) = env_objs s"
  "text_maps (upd_material m f s) = text_maps s"
  "mipmaps (upd_material m f s) = mipmaps s"
  "obj2mat (upd_material m f s) = obj2mat s"
  "pending (upd_material m f s) = pending s"
  "alphatest (upd_material m f s) = alphatest s"
  "warnings (upd_material m f s) = warnings s"
  by (simp_all add: upd_material_def)

lemma upd_env_fields [simp]:
  "layer_objs (upd_env i f s) = layer_objs s"
  "materials (upd_env i f s) = materials s"
  "obj2mat (upd_env i f s) = obj2mat s"
  "mipmaps (upd_env i f s) = mipmaps s"
  "pending (upd_env i f s) = pending s"
  by (simp_all add: upd_env_def)

lemma addLayer_fields [simp]:
  "layer_objs (addLayer m k s) = layer_objs s"
  "materials (addLayer m k s) = (materials s)[m := (materials s ! m)\<lparr>layers := layers (materials s ! m) @ [k]\<rparr>]"
  "obj2mat (addLayer m k s) = obj2mat s"
  "mipmaps (addLayer m k s) = mipmaps s"
  "pending (addLayer m k s) = pending s"
  by (simp_all add: addLayer_def)

lemma warn_fields [simp]:
  "layer_objs (warn msg s) = layer_objs s"
  "materials (warn msg s) = materials s"
  "obj2mat (warn msg s) = obj2mat s"
  "mipmaps (warn msg s) = mipmaps s"
  "pending (warn msg s) = pending s"
  "env_objs (warn msg s) = env_objs s"
  "warnings (warn msg s) = warnings s @ [msg]"
  by (simp_all add: warn_def)

lemma add_layer_object_fields [simp]:
  "fst (add_layer_object L s) = length (layer_objs s)"
  "layer_objs (snd (add_layer_object L s)) = layer_objs s @ [L]"
  "materials (snd (add_layer_object L s)) = materials s"
  "obj2mat (snd (add_layer_object L s)) = obj2mat s"
  "mipmaps (snd (add_layer_object L s)) = mipmaps s"
  "pending (snd (add_layer_object L s)) = pending s"
  "env_objs (snd (add_layer_object L s)) = env_objs s"
  by (simp_all add: add_layer_object_def)

lemma layers_frame_refl [simp]: "layers_frame K s s"
  by (simp add: layers_frame_def)

lemma layers_frame_trans:
  "layers_frame K s s1 \<Longrightarrow> layers_frame K s1 s2 \<Longrightarrow> layers_frame K s s2"
  by (auto simp add: layers_frame_def)

lemma layers_frame_mono: "layers_frame K s s' \<Longrightarrow> K \<subseteq> K' \<Longrightarrow> layers_frame K' s s'"
  by (auto simp add: layers_frame_def)

lemma keeps_materials_refl [simp]: "keeps_materials s s"
  by (simp add: keeps_materials_def)

lemma keeps_materials_trans:
  "keeps_materials s s1 \<Longrightarrow> keeps_materials s1 s2 \<Longrightarrow> keeps_materials s s2"
  by (simp add: keeps_materials_def)

lemma layers_frame_upd_layer [simp]: "layers_frame {k} s (upd_layer k f s)"
  by (simp add: layers_frame_def)

lemma layers_frame_upd_state [simp]: "layers_frame {k} s (upd_state k g s)"
  by (simp add: layers_frame_def)

lemma layers_frame_add [simp]: "layers_frame K s (snd (add_layer_object L s))"
  by (simp add: layers_frame_def nth_append)

lemma layers_frame_same_layers: "layer_objs s' = layer_objs s \<Longrightarrow> layers_frame K s s'"
  by (simp add: layers_frame_def)

lemma opacity_animation_frame:
  "export_layer_opacity_animation E k fcs s = (c, s1) \<Longrightarrow>
     layers_frame {k} s s1 \<and> keeps_materials s s1 \<and> length (layer_objs s1) = length (layer_objs s)"
  by (induction fcs) (auto simp add: keeps_materials_def split: if_splits)

lemma export_layer_animations_unfold:
  assumes "slot_texture slt = Some tex" "gather_fcurves bm tex idx = (fcs, ma, ta)"
    "export_layer_opacity_animation E k fcs s = (c, s1)"
  shows "export_layer_animations E bm slt idx k s =
     (if fcs = [] then Inr (k, s)
      else if c = None \<and> export_layer_transform_animation E slt fcs = None then Inr (k, s1)
      else if render_fps E = 0 then Inl ZeroDivisionError
      else (case (case ta of Some a \<Rightarrow> Some a | None \<Rightarrow> ma) of
              None \<Rightarrow> Inl AttributeError
            | Some act \<Rightarrow>
                Inr (length (layer_objs s1),
                     upd_layer (length (layer_objs s1))
                       (finish_layer_animation E (tex_plasma_layer tex) k (frame_range act))
                       (upd_layer (length (layer_objs s1))
                          (attach_controllers c (export_layer_transform_animation E slt fcs))
                          (snd (add_layer_object
                                  (new_plLayerAnimation E (key_name (layer_objs s1 ! k) @ ''_LayerAnim'')) s1))))))"
  unfolding export_layer_animations_def
  by (simp add: assms Let_def add_layer_object_def split: option.splits)

lemma export_layer_animations_frame:
  assumes "export_layer_animations E bm slt idx k s = Inr (final, s')" "k < length (layer_objs s)"
  shows "layers_frame {k} s s' \<and> keeps_materials s s' \<and>
         (final = k \<or> (length (layer_objs s) \<le> final \<and> final < length (layer_objs s')))"
proof -
  from assms(1) obtain tex where t: "slot_texture slt = Some tex"
    by (auto simp add: export_layer_animations_def split: option.splits)
  obtain fcs ma ta where g: "gather_fcurves bm tex idx = (fcs, ma, ta)" by (cases "gather_fcurves bm tex idx") auto
  obtain c s1 where o: "export_layer_opacity_animation E k fcs s = (c, s1)"
    by (cases "export_layer_opacity_animation E k fcs s") auto
  note f1 = opacity_animation_frame[OF o]
  note u = export_layer_animations_unfold[OF t g o]
  show ?thesis
    using assms(1) f1 unfolding u
    by (auto simp add: layers_frame_def keeps_materials_def nth_append split: if_splits option.splits)
qed

lemma reuse_dynamic_env_frame:
  "reuse_dynamic_env bo layer i s = Inr (j, s1) \<Longrightarrow> layer_objs s1 = layer_objs s \<and> keeps_materials s s1"
  by (auto simp add: reuse_dynamic_env_def keeps_materials_def split: if_splits option.splits)

lemma setup_cam_map_frame:
  "k < length (layer_objs s) \<Longrightarrow>
     layers_frame {k} s (setup_cam_map E bo viewpt k eRes e1 s) \<and>
     keeps_materials s (setup_cam_map E bo viewpt k eRes e1 s)"
  by (simp add: setup_cam_map_def Let_def add_layer_object_def layers_frame_def keeps_materials_def
      nth_append)

lemma setup_env_map_frame:
  "layers_frame {k} s (setup_env_map E viewpt (Some k) eRes e1 s) \<and>
   keeps_materials s (setup_env_map E viewpt (Some k) eRes e1 s)"
  by (simp add: setup_env_map_def Let_def layers_frame_def keeps_materials_def)

lemma export_dynamic_env_frame:
  assumes "export_dynamic_env E bo (Some k) tex c s = Inr (i, s1)" "k < length (layer_objs s)"
  shows "layers_frame {k} s s1 \<and> keeps_materials s s1"
  using assms reuse_dynamic_env_frame[of bo "Some k" _ s i s1]
    setup_cam_map_frame[OF assms(2)] setup_env_map_frame[of k s]
  unfolding export_dynamic_env_def Let_def
  by (auto simp add: layers_frame_same_layers split: option.splits sum.splits if_splits)

lemma export_texture_type_environment_map_frame:
  assumes "export_texture_type_environment_map E bo k slt s = Inr s1" "k < length (layer_objs s)"
  shows "layers_frame {k} s s1 \<and> keeps_materials s s1"
proof -
  from assms(1) obtain tex where t: "slot_texture slt = Some tex"
    by (auto simp add: export_texture_type_environment_map_def split: option.splits)
  from assms(1) t obtain i s0 where
    e: "export_dynamic_env E bo (Some k) tex
          (if env_mapping (tex_environment_map tex) = ''PLANE'' \<and> pvMoul (plasma E) \<le> mgr_version E
           then plDynamicCamMap else plDynamicEnvMap) s = Inr (i, s0)"
    and r: "s1 = upd_layer k (\<lambda>L. L\<lparr>texture := Some (DynamicEnvKey i)\<rparr>)
                  (upd_state k (\<lambda>st. st\<lparr>shadeFlags := shadeFlags st OR kShadeEnvironMap (plasma E)\<rparr>) s0)"
    by (auto simp add: export_texture_type_environment_map_def Let_def set_layer_texture_of_def
        split: if_splits sum.splits option.splits)
  from export_dynamic_env_frame[OF e assms(2)] show ?thesis
    by (auto simp add: r layers_frame_def keeps_materials_def)
qed

lemma test_image_alpha_frame:
  "test_image_alpha E img s = (r, s1) \<Longrightarrow> layer_objs s1 = layer_objs s \<and> keeps_materials s s1"
  by (auto simp add: test_image_alpha_def keeps_materials_def Let_def split: option.splits)

lemma image_has_alpha_frame:
  "image_has_alpha E slt tex s = (r, s1) \<Longrightarrow> layer_objs s1 = layer_objs s \<and> keeps_materials s s1"
  using test_image_alpha_frame[of E _ s]
  by (auto simp add: image_has_alpha_def keeps_materials_def split: option.splits prod.splits if_splits)

lemma bind_dynamic_text_map_frame:
  "layers_frame {k} s (bind_dynamic_text_map bo k tex s) \<and> keeps_materials s (bind_dynamic_text_map bo k tex s)"
  by (auto simp add: bind_dynamic_text_map_def find_create_text_map_def layers_frame_def keeps_materials_def
      split: option.splits prod.splits)

lemma export_texture_type_image_frame:
  assumes "export_texture_type_image E bo k slt s = Inr s1"
  shows "layers_frame {k} s s1 \<and> keeps_materials s s1"
proof -
  from assms obtain tex where t: "slot_texture slt = Some tex"
    by (auto simp add: export_texture_type_image_def split: option.splits)
  obtain ha s0 where a: "image_has_alpha E slt tex s = (ha, s0)" by (metis surj_pair)
  note f0 = image_has_alpha_frame[OF a]
  let ?s2 = "upd_state k (image_layer_flags E slt tex ha) s0"
  have f2: "layers_frame {k} s ?s2 \<and> keeps_materials s ?s2"
    using f0 by (auto simp add: layers_frame_def keeps_materials_def)
  have "s1 = bind_dynamic_text_map bo k tex ?s2 \<or> (\<exists>p. s1 = ?s2\<lparr>pending := p\<rparr>)"
    using assms t a unfolding export_texture_type_image_def
    by (auto simp add: Let_def split: option.splits sum.splits)
  then show ?thesis
  proof
    assume "s1 = bind_dynamic_text_map bo k tex ?s2"
    then show ?thesis
      using f2 bind_dynamic_text_map_frame[of k ?s2 bo tex]
      by (metis layers_frame_trans keeps_materials_trans)
  next
    assume "\<exists>p. s1 = ?s2\<lparr>pending := p\<rparr>"
    then obtain p where "s1 = ?s2\<lparr>pending := p\<rparr>" by blast
    then show ?thesis using f2 by (auto simp add: layers_frame_def keeps_materials_def)
  qed
qed

lemma export_texture_type_frame:
  assumes "export_texture_type E bo k slt tex s = Inr s1" "k < length (layer_objs s)"
  shows "layers_frame {k} s s1 \<and> keeps_materials s s1"
  using assms export_texture_type_environment_map_frame[of E bo k slt s s1]
    export_texture_type_image_frame[of E bo k slt s s1]
  by (auto simp add: export_texture_type_def export_texture_type_none_def split: if_splits)

lemma layers_frame_length: "layers_frame K s s' \<Longrightarrow> length (layer_objs s) \<le> length (layer_objs s')"
  by (simp add: layers_frame_def)

lemma finish_texture_slot_frame:
  assumes "finish_texture_slot E bo bm hsgmat slt idx k num s = Inr (n, s')" "k < length (layer_objs s)"
  shows "n = num \<and> layers_frame {k} s s' \<and> obj2mat s' = obj2mat s \<and>
         (\<exists>final. materials s' = (materials s)[hsgmat := (materials s ! hsgmat)
                                     \<lparr>layers := layers (materials s ! hsgmat) @ [final]\<rparr>] \<and>
                   (final = k \<or> length (layer_objs s) \<le> final) \<and> final < length (layer_objs s'))"
proof -
  from assms(1) obtain tex where t: "slot_texture slt = Some tex"
    by (auto simp add: finish_texture_slot_def split: option.splits)
  let ?s0 = "upd_layer k (apply_layer_props E (tex_plasma_layer tex)) s"
  from assms(1) t obtain s1 where e: "export_texture_type E bo k slt tex ?s0 = Inr s1"
    by (auto simp add: finish_texture_slot_def split: sum.splits)
  from assms(1) t e obtain final s2 where a: "export_layer_animations E bm slt idx k s1 = Inr (final, s2)"
    and r: "n = num" "s' = addLayer hsgmat final s2"
    by (auto simp add: finish_texture_slot_def split: sum.splits)
  have k0: "k < length (layer_objs ?s0)" using assms(2) by simp
  have f0: "layers_frame {k} s ?s0 \<and> keeps_materials s ?s0" by (simp add: keeps_materials_def)
  note f1 = export_texture_type_frame[OF e k0]
  have k1: "k < length (layer_objs s1)" using f1 k0 layers_frame_length by fastforce
  note f2 = export_layer_animations_frame[OF a k1]
  have fr: "layers_frame {k} s s2" using f0 f1 f2 layers_frame_trans by blast
  have km: "keeps_materials s s2" using f0 f1 f2 keeps_materials_trans by blast
  have len1: "length (layer_objs s) \<le> length (layer_objs s1)"
    using f0 f1 layers_frame_trans layers_frame_length by blast
  have len2: "length (layer_objs s1) \<le> length (layer_objs s2)" using f2 layers_frame_length by blast
  have fin: "(final = k \<or> length (layer_objs s) \<le> final) \<and> final < length (layer_objs s2)"
    using f2 len1 len2 k1 by auto
  show ?thesis
    using fr km fin r by (auto simp add: layers_frame_def keeps_materials_def)
qed

lemma begin_slot_layer_eq:
  "begin_slot_layer E bo bm slt s =
     (length (layer_objs s), s\<lparr>layer_objs := layer_objs s @ [initial_slot_layer E bo bm slt]\<rparr>)"
  by (simp add: begin_slot_layer_def initial_slot_layer_def add_layer_object_def upd_layer_def Let_def
      split: option.splits)

lemma export_texture_slot_plain:
  assumes "idx < length slots" "\<not> slot_use_stencil (slots ! idx)"
  shows "export_texture_slot E bo bm hsgmat slots idx s =
           finish_texture_slot E bo bm hsgmat (slots ! idx) idx (length (layer_objs s)) 1
             (upd_state (length (layer_objs s)) (standard_layer_flags E (slots ! idx))
                (snd (begin_slot_layer E bo bm (slots ! idx) s)))"
  using assms by (subst export_texture_slot.simps) (simp add: begin_slot_layer_eq)

lemma export_texture_slot_stencil:
  assumes "idx < length slots" "slot_use_stencil (slots ! idx)" "slot_texture (slots ! idx) = Some tex"
    "Suc idx \<noteq> length slots"
  shows "export_texture_slot E bo bm hsgmat slots idx s =
           (case export_texture_slot E bo bm hsgmat slots (Suc idx)
                   (stencil_begin E bo bm hsgmat (slots ! idx) tex s) of
              Inl err \<Rightarrow> Inl err
            | Inr (n, s3) \<Rightarrow>
                (case bind_previous_layer E hsgmat s3 of
                   Inl err \<Rightarrow> Inl err
                 | Inr s4 \<Rightarrow>
                     finish_texture_slot E bo bm hsgmat (slots ! idx) idx (length (layer_objs s)) 2 s4))"
  using assms
  by (subst export_texture_slot.simps) (simp add: begin_slot_layer_eq stencil_begin_def)

lemma export_texture_slot_stencil_last:
  assumes "idx < length slots" "slot_use_stencil (slots ! idx)" "slot_texture (slots ! idx) = Some tex"
    "Suc idx = length slots"
  shows "export_texture_slot E bo bm hsgmat slots idx s = Inl (stencil_error (slots ! idx))"
  using assms
  by (subst export_texture_slot.simps) (auto simp add: begin_slot_layer_eq)

lemma begin_slot_layer_fields [simp]:
  "fst (begin_slot_layer E bo bm slt s) = length (layer_objs s)"
  "layer_objs (snd (begin_slot_layer E bo bm slt s)) = layer_objs s @ [initial_slot_layer E bo bm slt]"
  "materials (snd (begin_slot_layer E bo bm slt s)) = materials s"
  "obj2mat (snd (begin_slot_layer E bo bm slt s)) = obj2mat s"
  by (simp_all add: begin_slot_layer_eq)

lemma stencil_begin_fields:
  "layer_objs (stencil_begin E bo bm hsgmat slt tex s) =
     layer_objs s @ [stencil_layer_flags E tex (initial_slot_layer E bo bm slt)]"
  "materials (stencil_begin E bo bm hsgmat slt tex s) =
     (materials s)[hsgmat := (materials s ! hsgmat)
        \<lparr>compFlags := compFlags (materials s ! hsgmat) OR kCompNeedsBlendChannel (plasma E)\<rparr>]"
  "obj2mat (stencil_begin E bo bm hsgmat slt tex s) = obj2mat s"
  by (simp_all add: stencil_begin_def begin_slot_layer_eq)

lemma slot_exported_plain:
  assumes f: "finish_texture_slot E bo bm hsgmat slt idx (length (layer_objs s)) num
                (upd_state (length (layer_objs s)) g (snd (begin_slot_layer E bo bm slt s))) = Inr (n, s')"
    and h: "hsgmat < length (materials s)"
  shows "\<exists>final. slot_exported hsgmat [final] s s' \<and> n = num"
proof -
  let ?k = "length (layer_objs s)"
  let ?s0 = "upd_state ?k g (snd (begin_slot_layer E bo bm slt s))"
  have l0: "length (layer_objs ?s0) = Suc ?k" by (simp add: begin_slot_layer_eq)
  have k0: "?k < length (layer_objs ?s0)" by (simp add: begin_slot_layer_eq)
  have m0: "materials ?s0 = materials s" "obj2mat ?s0 = obj2mat s" by (simp_all add: begin_slot_layer_eq)
  have o0: "\<forall>j<?k. layer_objs ?s0 ! j = layer_objs s ! j" by (simp add: begin_slot_layer_eq nth_append)
  from finish_texture_slot_frame[OF f k0] obtain final where
    r: "n = num" "layers_frame {?k} ?s0 s'" "obj2mat s' = obj2mat ?s0"
       "materials s' = (materials ?s0)[hsgmat := (materials ?s0 ! hsgmat)
                          \<lparr>layers := layers (materials ?s0 ! hsgmat) @ [final]\<rparr>]"
       "final = ?k \<or> length (layer_objs ?s0) \<le> final" "final < length (layer_objs s')"
    by blast
  have fr: "layers_frame {} s s'"
    using r(2) o0 l0 by (auto simp add: layers_frame_def)
  have new: "layers (materials s' ! hsgmat) = layers (materials s ! hsgmat) @ [final]"
    using r(4) h by simp
  have fin: "?k \<le> final \<and> final < length (layer_objs s')" using r(5,6) l0 by auto
  show ?thesis
    unfolding slot_exported_def using fr r(1,3,4) new fin h by auto
qed

lemma bind_previous_layer_eq:
  "bind_previous_layer E hsgmat s = Inr s' \<Longrightarrow>
     layers (materials s ! hsgmat) \<noteq> [] \<and>
     s' = upd_state (last (layers (materials s ! hsgmat))) (bind_next_flags E) s"
  by (auto simp add: bind_previous_layer_def split: if_splits)

lemma slot_exported_stencil:
  assumes ih: "slot_exported hsgmat new (stencil_begin E bo bm hsgmat slt tex s) s3"
    and b: "bind_previous_layer E hsgmat s3 = Inr s4"
    and f: "finish_texture_slot E bo bm hsgmat slt idx (length (layer_objs s)) num s4 = Inr (n, s')"
    and h: "hsgmat < length (materials s)"
  shows "\<exists>final. slot_exported hsgmat (new @ [final]) s s' \<and> n = num \<and>
           layer_objs s' ! last new =
             (layer_objs s3 ! last new)\<lparr>state := bind_next_flags E (state (layer_objs s3 ! last new))\<rparr> \<and>
           last (layers (materials s3 ! hsgmat)) = last new \<and>
           (final = length (layer_objs s) \<or> length (layer_objs s4) \<le> final)"
proof -
  let ?k = "length (layer_objs s)"
  let ?s2 = "stencil_begin E bo bm hsgmat slt tex s"
  have l2: "length (layer_objs ?s2) = Suc ?k" by (simp add: stencil_begin_fields)
  have o2: "\<forall>j<?k. layer_objs ?s2 ! j = layer_objs s ! j" by (simp add: stencil_begin_fields nth_append)
  have lay2: "layers (materials ?s2 ! hsgmat) = layers (materials s ! hsgmat)"
    using h by (simp add: stencil_begin_fields)
  have oth2: "\<forall>j. j \<noteq> hsgmat \<longrightarrow> materials ?s2 ! j = materials s ! j"
    by (simp add: stencil_begin_fields)
  have len2: "length (materials ?s2) = length (materials s)" by (simp add: stencil_begin_fields)
  from ih have i:
    "layers_frame {} ?s2 s3" "obj2mat s3 = obj2mat ?s2" "length (materials s3) = length (materials ?s2)"
    "\<forall>j. j \<noteq> hsgmat \<longrightarrow> materials s3 ! j = materials ?s2 ! j" "new \<noteq> []"
    "layers (materials s3 ! hsgmat) = layers (materials ?s2 ! hsgmat) @ new"
    "\<forall>x\<in>set new. length (layer_objs ?s2) \<le> x \<and> x < length (layer_objs s3)"
    by (simp_all add: slot_exported_def)
  let ?b = "last new"
  have lastb: "last (layers (materials s3 ! hsgmat)) = ?b" using i(5,6) by simp
  have bin: "Suc ?k \<le> ?b \<and> ?b < length (layer_objs s3)" using i(5,7) l2 by (metis last_in_set)
  from bind_previous_layer_eq[OF b] have s4: "s4 = upd_state ?b (bind_next_flags E) s3"
    by (simp add: lastb)
  have l3: "Suc ?k \<le> length (layer_objs s3)" using i(1) l2 by (simp add: layers_frame_def)
  have k4: "?k < length (layer_objs s4)" using l3 by (simp add: s4)
  from finish_texture_slot_frame[OF f k4] obtain final where
    r: "n = num" "layers_frame {?k} s4 s'" "obj2mat s' = obj2mat s4"
       "materials s' = (materials s4)[hsgmat := (materials s4 ! hsgmat)
                          \<lparr>layers := layers (materials s4 ! hsgmat) @ [final]\<rparr>]"
       "final = ?k \<or> length (layer_objs s4) \<le> final" "final < length (layer_objs s')"
    by blast
  have m4: "materials s4 = materials s3" "obj2mat s4 = obj2mat s3" "length (layer_objs s4) = length (layer_objs s3)"
    by (simp_all add: s4)
  have o4: "\<forall>j<?k. layer_objs s4 ! j = layer_objs s ! j"
    using i(1) o2 l2 bin by (auto simp add: s4 layers_frame_def)
  have fr: "layers_frame {} s s'"
    using r(2) o4 k4 by (auto simp add: layers_frame_def)
  have bobj: "layer_objs s' ! ?b = layer_objs s4 ! ?b"
    using r(2) bin by (auto simp add: layers_frame_def m4)
  have bobj4: "layer_objs s4 ! ?b = (layer_objs s3 ! ?b)\<lparr>state := bind_next_flags E (state (layer_objs s3 ! ?b))\<rparr>"
    using bin by (simp add: s4)
  have h3: "hsgmat < length (materials s3)" using h i(3) len2 by simp
  have new: "layers (materials s' ! hsgmat) = layers (materials s ! hsgmat) @ new @ [final]"
    using r(4) h3 i(6) lay2 by (simp add: m4)
  have fin: "?k \<le> final \<and> final < length (layer_objs s')" using r(5,6) k4 by auto
  have newin: "\<forall>x\<in>set new. ?k \<le> x \<and> x < length (layer_objs s')"
    using i(7) l2 r(2) by (auto simp add: layers_frame_def m4)
  have oth: "\<forall>j. j \<noteq> hsgmat \<longrightarrow> materials s' ! j = materials s ! j"
    using r(4) i(4) oth2 by (simp add: m4)
  have len: "length (materials s') = length (materials s)" using r(4) i(3) len2 by (simp add: m4)
  have om: "obj2mat s' = obj2mat s" using r(3) i(2) by (simp add: m4 stencil_begin_fields)
  have "slot_exported hsgmat (new @ [final]) s s'"
    unfolding slot_exported_def using fr om len oth new fin newin by auto
  then show ?thesis using r(1,5) bobj bobj4 lastb by auto
qed

lemma export_texture_slot_in_range:
  "export_texture_slot E bo bm hsgmat slots idx s = Inr r \<Longrightarrow> idx < length slots"
  by (subst (asm) export_texture_slot.simps) (auto split: if_splits)

lemma export_texture_slot_stencil_texture:
  assumes "export_texture_slot E bo bm hsgmat slots idx s = Inr r" "slot_use_stencil (slots ! idx)"
  shows "\<exists>tex. slot_texture (slots ! idx) = Some tex \<and> Suc idx \<noteq> length slots"
  using assms
  by (subst (asm) export_texture_slot.simps) (auto split: if_splits option.splits prod.splits)

lemma export_texture_slot_exported:
  assumes "export_texture_slot E bo bm hsgmat slots idx s = Inr (n, s')" "hsgmat < length (materials s)"
  shows "\<exists>new. slot_exported hsgmat new s s' \<and>
           n = (if slot_use_stencil (slots ! idx) then 2 else 1) \<and>
           (\<not> slot_use_stencil (slots ! idx) \<longrightarrow> length new = 1)"
  using assms
proof (induction "length slots - idx" arbitrary: idx s n s' rule: less_induct)
  case less
  note run = less.prems(1) and h = less.prems(2)
  have inr: "idx < length slots" using export_texture_slot_in_range[OF run] .
  show ?case
  proof (cases "slot_use_stencil (slots ! idx)")
    case False
    from run have "finish_texture_slot E bo bm hsgmat (slots ! idx) idx (length (layer_objs s)) 1
             (upd_state (length (layer_objs s)) (standard_layer_flags E (slots ! idx))
                (snd (begin_slot_layer E bo bm (slots ! idx) s))) = Inr (n, s')"
      by (simp add: export_texture_slot_plain[OF inr False])
    from slot_exported_plain[OF this h] show ?thesis using False by auto
  next
    case True
    from export_texture_slot_stencil_texture[OF run True] obtain tex where
      t: "slot_texture (slots ! idx) = Some tex" and nl: "Suc idx \<noteq> length slots" by blast
    let ?s2 = "stencil_begin E bo bm hsgmat (slots ! idx) tex s"
    note u = export_texture_slot_stencil[OF inr True t nl, of E bo bm hsgmat s]
    from run obtain m s3 where r3: "export_texture_slot E bo bm hsgmat slots (Suc idx) ?s2 = Inr (m, s3)"
      unfolding u by (auto split: sum.splits)
    from run r3 obtain s4 where b: "bind_previous_layer E hsgmat s3 = Inr s4"
      unfolding u by (auto split: sum.splits)
    from run r3 b have f: "finish_texture_slot E bo bm hsgmat (slots ! idx) idx (length (layer_objs s)) 2 s4 = Inr (n, s')"
      unfolding u by simp
    have h2: "hsgmat < length (materials ?s2)" using h by (simp add: stencil_begin_fields)
    have "length slots - Suc idx < length slots - idx" using inr by simp
    from less.hyps[OF this r3 h2] obtain new where ih: "slot_exported hsgmat new ?s2 s3" by blast
    from slot_exported_stencil[OF ih b f h] show ?thesis using True by auto
  qed
qed

lemma slot_exported_weaken:
  "slot_exported hsgmat new s s' \<Longrightarrow>
     obj2mat s' = obj2mat s \<and> length (materials s') = length (materials s) \<and> layers_frame {} s s'"
  by (simp add: slot_exported_def)

lemma export_slots_frame:
  assumes "export_slots E bo bm hsgmat slots i s = Inr s'" "hsgmat < length (materials s)"
  shows "obj2mat s' = obj2mat s \<and> length (materials s') = length (materials s) \<and> layers_frame {} s s'"
  using assms
proof (induction "length slots - i" arbitrary: i s rule: less_induct)
  case less
  show ?case
  proof (cases "i < length slots")
    case False
    then show ?thesis using less.prems(1) by (subst (asm) export_slots.simps) simp
  next
    case True
    from less.prems(1) True obtain n s1 where
      r: "export_texture_slot E bo bm hsgmat slots i s = Inr (n, s1)"
      and rest: "export_slots E bo bm hsgmat slots (i + n) s1 = Inr s'"
      by (subst (asm) export_slots.simps) (auto split: sum.splits)
    from export_texture_slot_exported[OF r less.prems(2)] obtain new where
      e: "slot_exported hsgmat new s s1" and n: "n = (if slot_use_stencil (slots ! i) then 2 else 1)"
      by blast
    note w = slot_exported_weaken[OF e]
    have h1: "hsgmat < length (materials s1)" using w less.prems(2) by simp
    have "length slots - (i + n) < length slots - i" using True n by auto
    from less.hyps[OF this rest h1] show ?thesis using w layers_frame_trans by auto
  qed
qed

lemma export_slots_empty: "export_slots E bo bm hsgmat [] 0 s = Inr s"
  by (subst export_slots.simps) simp

subsection \<open>Materials\<close>

lemma add_material_object_fields [simp]:
  "fst (add_material_object m s) = length (materials s)"
  "materials (snd (add_material_object m s)) = materials s @ [m]"
  "layer_objs (snd (add_material_object m s)) = layer_objs s"
  "obj2mat (snd (add_material_object m s)) = obj2mat s"
  by (simp_all add: add_material_object_def)

lemma cache_material_fields [simp]:
  "materials (cache_material bo m s) = materials s"
  "layer_objs (cache_material bo m s) = layer_objs s"
  "obj2mat (cache_material bo m s) =
     (obj2mat s)(bo \<mapsto> (case obj2mat s bo of Some ks \<Rightarrow> ks @ [m] | None \<Rightarrow> [m]))"
  by (auto simp add: cache_material_def split: option.splits)

lemma add_auto_layer_fields [simp]:
  "layer_objs (add_auto_layer E bm m s) =
     layer_objs s @ [propagate_material_settings E bm (new_plLayer E (mat_name bm @ ''_AutoLayer''))]"
  "materials (add_auto_layer E bm m s) =
     (materials s)[m := (materials s ! m)\<lparr>layers := layers (materials s ! m) @ [length (layer_objs s)]\<rparr>]"
  "obj2mat (add_auto_layer E bm m s) = obj2mat s"
  by (simp_all add: add_auto_layer_def add_layer_object_def upd_layer_def)

lemma export_material_unfold:
  "export_material E bo bm s =
     (case export_slots E bo bm (length (materials s)) (qualifying_slots bm) 0
             (snd (add_material_object (new_hsGMaterial E (mat_name bm)) s)) of
        Inl err \<Rightarrow> Inl err
      | Inr s2 \<Rightarrow>
          Inr (length (materials s),
               cache_material bo (length (materials s))
                 (if layers (materials s2 ! length (materials s)) = []
                  then add_auto_layer E bm (length (materials s)) s2 else s2)))"
  by (simp add: export_material_def add_material_object_def Let_def split: sum.splits)

lemma export_material_effect:
  assumes "export_material E bo bm s = Inr (hsgmat, s')"
  shows "hsgmat = length (materials s) \<and> layers (materials s' ! hsgmat) \<noteq> [] \<and>
         length (materials s') = Suc (length (materials s)) \<and>
         obj2mat s' = (obj2mat s)(bo \<mapsto> (case obj2mat s bo of Some ks \<Rightarrow> ks @ [hsgmat] | None \<Rightarrow> [hsgmat]))"
proof -
  let ?s1 = "snd (add_material_object (new_hsGMaterial E (mat_name bm)) s)"
  let ?m = "length (materials s)"
  from assms obtain s2 where r: "export_slots E bo bm ?m (qualifying_slots bm) 0 ?s1 = Inr s2"
    and res: "hsgmat = ?m"
       "s' = cache_material bo ?m (if layers (materials s2 ! ?m) = [] then add_auto_layer E bm ?m s2 else s2)"
    unfolding export_material_unfold by (auto split: sum.splits)
  have h: "?m < length (materials ?s1)" by simp
  from export_slots_frame[OF r h] have f: "obj2mat s2 = obj2mat s" "length (materials s2) = Suc ?m"
    by simp_all
  show ?thesis using f res(1) by (auto simp add: res(2))
qed

text \<open>
  C5. A material without qualifying texture slots is exported with exactly one layer, the
  automatic layer that carries the propagated material settings on an otherwise blank
  layer; and whatever its slots, an exported material has at least one layer.
\<close>

theorem export_material_default_layer:
  "(qualifying_slots bm = [] \<longrightarrow>
      (\<exists>s'. export_material E bo bm s = Inr (length (materials s), s') \<and>
            layers (materials s' ! length (materials s)) = [length (layer_objs s)] \<and>
            layer_objs s' = layer_objs s @
              [propagate_material_settings E bm (new_plLayer E (mat_name bm @ ''_AutoLayer''))])) \<and>
   (\<forall>hsgmat s'. export_material E bo bm s = Inr (hsgmat, s') \<longrightarrow>
      layers (materials s' ! hsgmat) \<noteq> [])"
proof (intro conjI impI allI)
  assume q: "qualifying_slots bm = []"
  show "\<exists>s'. export_material E bo bm s = Inr (length (materials s), s') \<and>
            layers (materials s' ! length (materials s)) = [length (layer_objs s)] \<and>
            layer_objs s' = layer_objs s @
              [propagate_material_settings E bm (new_plLayer E (mat_name bm @ ''_AutoLayer''))]"
    unfolding export_material_unfold
    by (simp add: q export_slots_empty new_hsGMaterial_def)
next
  fix hsgmat s'
  assume "export_material E bo bm s = Inr (hsgmat, s')"
  from export_material_effect[OF this] show "layers (materials s' ! hsgmat) \<noteq> []" by blast
qed

theorem export_material_default_layer_witness:
  "qualifying_slots (wit_material [None, Some (wit_slot\<lparr>slot_use := False\<rparr>)]) = [] \<and>
   (\<exists>s'. export_material wit_env wit_bo (wit_material [None, Some (wit_slot\<lparr>slot_use := False\<rparr>)])
            wit_converter = Inr (0, s') \<and>
         layers (materials s' ! 0) = [0] \<and> layers (materials s' ! 0) \<noteq> [])"
proof -
  let ?bm = "wit_material [None, Some (wit_slot\<lparr>slot_use := False\<rparr>)]"
  have q: "qualifying_slots ?bm = []"
    by (simp add: qualifying_slots_def slot_qualifies_def wit_material_def wit_slot_def)
  note t = export_material_default_layer[of ?bm wit_env wit_bo wit_converter]
  from t q obtain s' where
    r: "export_material wit_env wit_bo ?bm wit_converter = Inr (length (materials wit_converter), s')"
       "layers (materials s' ! length (materials wit_converter)) = [length (layer_objs wit_converter)]"
    by blast
  have z: "length (materials wit_converter) = 0" "length (layer_objs wit_converter) = 0"
    by (simp_all add: wit_converter_def)
  from t r(1) have "layers (materials s' ! length (materials wit_converter)) \<noteq> []" by blast
  then show ?thesis using q r unfolding z by blast
qed

subsection \<open>The material cache\<close>

lemma export_waveset_material_obj2mat:
  "obj2mat (snd (export_waveset_material E bo bm s)) = obj2mat s"
  by (simp add: export_waveset_material_def Let_def add_material_object_def add_layer_object_def)

lemma run_calls_cache:
  "run_calls E cs s = Inr (ks, s') \<Longrightarrow>
     obj2mat s' bo =
       (if material_keys_of bo cs ks = [] then obj2mat s bo
        else Some ((case obj2mat s bo of None \<Rightarrow> [] | Some prev \<Rightarrow> prev) @ material_keys_of bo cs ks))"
proof (induction cs arbitrary: s ks)
  case Nil
  then show ?case by simp
next
  case (Cons c cs)
  show ?case
  proof (cases c)
    case (ExportMaterial b bm)
    from Cons.prems obtain k s1 ks1 where
      e: "export_material E b bm s = Inr (k, s1)" and r: "run_calls E cs s1 = Inr (ks1, s')"
      and ks: "ks = k # ks1"
      by (auto simp add: ExportMaterial split: sum.splits)
    from export_material_effect[OF e] have
      o: "obj2mat s1 = (obj2mat s)(b \<mapsto> (case obj2mat s b of Some p \<Rightarrow> p @ [k] | None \<Rightarrow> [k]))"
      by blast
    from Cons.IH[OF r] show ?thesis
      by (auto simp add: ExportMaterial ks o split: option.splits)
  next
    case (ExportWavesetMaterial b bm)
    from Cons.prems obtain ks1 where
      r: "run_calls E cs (snd (export_waveset_material E b bm s)) = Inr (ks1, s')"
      and ks: "ks = fst (export_waveset_material E b bm s) # ks1"
      by (auto simp add: ExportWavesetMaterial split: sum.splits prod.splits)
    from Cons.IH[OF r] show ?thesis
      by (simp add: ExportWavesetMaterial ks export_waveset_material_obj2mat)
  qed
qed

text \<open>
  C10, as amended. After a session that started with an empty cache, \<open>get_materials\<close>
  raises KeyError for an object that no call of \<open>export_material\<close> has returned for,
  whether or not \<open>export_waveset_material\<close> was called for it, and returns the keys of
  the materials that \<open>export_material\<close> returned for the object, in order, otherwise.
\<close>

theorem get_materials_after_session:
  assumes "run_calls E cs s = Inr (ks, s')" and "obj2mat s bo = None"
  shows "get_materials bo s' =
           (if material_keys_of bo cs ks = [] then Inl KeyError
            else Inr (material_keys_of bo cs ks))"
  using run_calls_cache[OF assms(1), of bo] assms(2)
  by (simp add: get_materials_def)

text \<open>
  C10 as stated fails: an object exported only through \<open>export_waveset_material\<close> has
  no entry in the cache.
\<close>

theorem get_materials_waveset_counterexample:
  "get_materials wit_bo (snd (export_waveset_material wit_env wit_bo (wit_material []) wit_converter))
     = Inl KeyError"
  by (simp add: get_materials_def export_waveset_material_obj2mat wit_converter_def)

lemma wit_session_runs: "\<exists>s'. run_calls wit_env wit_session wit_converter = Inr ([0, 1, 2], s')"
proof -
  have q: "qualifying_slots (wit_material []) = []"
    by (simp add: qualifying_slots_def wit_material_def)
  show ?thesis
    by (simp add: wit_session_def export_material_unfold q export_slots_empty
        export_waveset_material_def Let_def add_material_object_def add_layer_object_def
        wit_converter_def split: prod.splits)
qed

theorem get_materials_after_session_witness:
  "obj2mat wit_converter wit_bo = None \<and>
   (\<exists>s'. run_calls wit_env wit_session wit_converter = Inr ([0, 1, 2], s') \<and>
         get_materials wit_bo s' = Inr [0, 2])"
proof -
  have e: "obj2mat wit_converter wit_bo = None" by (simp add: wit_converter_def)
  from wit_session_runs obtain s' where r: "run_calls wit_env wit_session wit_converter = Inr ([0, 1, 2], s')"
    by blast
  have k: "material_keys_of wit_bo wit_session [0, 1, 2] = [0, 2]"
    by (simp add: wit_session_def)
  from get_materials_after_session[OF r e] have "get_materials wit_bo s' = Inr [0, 2]"
    unfolding k by simp
  then show ?thesis using e r by blast
qed

subsection \<open>A stencil without a following slot\<close>

lemma export_slots_error:
  "i < length slots \<Longrightarrow> export_texture_slot E bo bm hsgmat slots i s = Inl err \<Longrightarrow>
     export_slots E bo bm hsgmat slots i s = Inl err"
  by (subst export_slots.simps) simp

text \<open>
  C7. For a stencil slot that is the last of the qualifying slots the code reaches
  \<open>raise ExportError(...)\<close>, but the name \<open>ExportError\<close> is not bound in the module:
  the slot exporter raises NameError, not an export error with the message about the
  stencil, and the loop over the slots ends with that NameError.
\<close>

theorem stencil_without_next_slot:
  assumes "idx < length slots" and "slot_use_stencil (slots ! idx)"
    and "slot_texture (slots ! idx) = Some tex" and "Suc idx = length slots"
  shows "export_texture_slot E bo bm hsgmat slots idx s = Inl (NameError ''ExportError'') \<and>
         export_slots E bo bm hsgmat slots idx s = Inl (NameError ''ExportError'') \<and>
         (\<forall>msg. export_texture_slot E bo bm hsgmat slots idx s \<noteq> Inl (ExportError msg))"
proof -
  have e: "export_texture_slot E bo bm hsgmat slots idx s = Inl (NameError ''ExportError'')"
    using export_texture_slot_stencil_last[OF assms, of E bo bm hsgmat s]
    by (simp add: stencil_error_def raise_ExportError_def)
  from e export_slots_error[OF assms(1) e] show ?thesis by simp
qed

theorem stencil_without_next_slot_witness:
  "0 < length [wit_stencil_slot] \<and> slot_use_stencil ([wit_stencil_slot] ! 0) \<and>
   slot_texture ([wit_stencil_slot] ! 0) = Some wit_texture \<and> Suc 0 = length [wit_stencil_slot] \<and>
   export_texture_slot wit_env wit_bo (wit_material [Some wit_stencil_slot]) 0 [wit_stencil_slot] 0 wit_converter =
     Inl (NameError ''ExportError'') \<and>
   export_slots wit_env wit_bo (wit_material [Some wit_stencil_slot]) 0 [wit_stencil_slot] 0 wit_converter =
     Inl (NameError ''ExportError'')"
proof -
  have a: "0 < length [wit_stencil_slot]" by simp
  have b: "slot_use_stencil ([wit_stencil_slot] ! 0)" by (simp add: wit_stencil_slot_def)
  have c: "slot_texture ([wit_stencil_slot] ! 0) = Some wit_texture"
    by (simp add: wit_stencil_slot_def wit_slot_def)
  have d: "Suc 0 = length [wit_stencil_slot]" by simp
  note t = stencil_without_next_slot[OF a b c d, of wit_env wit_bo "wit_material [Some wit_stencil_slot]" 0 wit_converter]
  have r1: "export_texture_slot wit_env wit_bo (wit_material [Some wit_stencil_slot]) 0 [wit_stencil_slot] 0 wit_converter =
     Inl (NameError ''ExportError'')"
    using t by (rule conjunct1)
  have r2: "export_slots wit_env wit_bo (wit_material [Some wit_stencil_slot]) 0 [wit_stencil_slot] 0 wit_converter =
     Inl (NameError ''ExportError'')"
    using t by blast
  show ?thesis by (intro conjI a b c d r1 r2)
qed

subsection \<open>Environment maps with an unsupported source\<close>

lemma finish_texture_slot_error:
  "slot_texture slt = Some tex \<Longrightarrow>
   export_texture_type E bo k slt tex (upd_layer k (apply_layer_props E (tex_plasma_layer tex)) s) = Inl err \<Longrightarrow>
     finish_texture_slot E bo bm hsgmat slt idx k num s = Inl err"
  by (simp add: finish_texture_slot_def)

text \<open>
  C6. For an environment map whose source is neither STATIC nor ANIMATED, the exporter
  of environment maps raises AttributeError (it reads \<open>pl_env.key\<close> of None), and so
  do the slot exporter and the loop over the slots: the export fails where the claim has
  it continue with a layer without texture.
\<close>

theorem environment_map_unsupported_source:
  assumes "slot_texture slt = Some tex"
    and "env_source (tex_environment_map tex) \<notin> {''STATIC'', ''ANIMATED''}"
  shows "export_texture_type_environment_map E bo layer slt s = Inl AttributeError \<and>
         (idx < length slots \<and> slots ! idx = slt \<and> \<not> slot_use_stencil slt \<and>
          tex_type tex = ''ENVIRONMENT_MAP'' \<longrightarrow>
            export_texture_slot E bo bm hsgmat slots idx s = Inl AttributeError \<and>
            export_slots E bo bm hsgmat slots idx s = Inl AttributeError)"
proof -
  have e: "\<And>layer s. export_texture_type_environment_map E bo layer slt s = Inl AttributeError"
    using assms
    by (simp add: export_texture_type_environment_map_def Let_def set_layer_texture_of_def)
  have "export_texture_slot E bo bm hsgmat slots idx s = Inl AttributeError \<and>
        export_slots E bo bm hsgmat slots idx s = Inl AttributeError"
    if h: "idx < length slots" "slots ! idx = slt" "\<not> slot_use_stencil slt"
      "tex_type tex = ''ENVIRONMENT_MAP''"
  proof -
    have ns: "\<not> slot_use_stencil (slots ! idx)" using h by simp
    have t: "\<And>k s. export_texture_type E bo k slt tex s = Inl AttributeError"
      using e h(4) by (simp add: export_texture_type_def)
    have "export_texture_slot E bo bm hsgmat slots idx s = Inl AttributeError"
      unfolding export_texture_slot_plain[OF h(1) ns] h(2)
      by (rule finish_texture_slot_error[OF assms(1) t])
    then show ?thesis using export_slots_error[OF h(1)] by blast
  qed
  then show ?thesis using e by blast
qed

theorem environment_map_unsupported_source_witness:
  "slot_texture wit_envmap_slot = Some (wit_texture\<lparr>tex_type := ''ENVIRONMENT_MAP''\<rparr>) \<and>
   env_source (tex_environment_map (wit_texture\<lparr>tex_type := ''ENVIRONMENT_MAP''\<rparr>))
     \<notin> {''STATIC'', ''ANIMATED''} \<and>
   export_texture_type_environment_map wit_env wit_bo 0 wit_envmap_slot wit_converter = Inl AttributeError \<and>
   export_texture_slot wit_env wit_bo (wit_material [Some wit_envmap_slot]) 0 [wit_envmap_slot] 0 wit_converter
     = Inl AttributeError"
proof -
  let ?tex = "wit_texture\<lparr>tex_type := ''ENVIRONMENT_MAP''\<rparr>"
  have a: "slot_texture wit_envmap_slot = Some ?tex"
    by (simp add: wit_envmap_slot_def wit_slot_def)
  have b: "env_source (tex_environment_map ?tex) \<notin> {''STATIC'', ''ANIMATED''}"
    by (simp add: wit_texture_def wit_environment_map_def)
  have c: "0 < length [wit_envmap_slot] \<and> [wit_envmap_slot] ! 0 = wit_envmap_slot \<and>
           \<not> slot_use_stencil wit_envmap_slot \<and> tex_type ?tex = ''ENVIRONMENT_MAP''"
    by (simp add: wit_envmap_slot_def wit_slot_def)
  note t = environment_map_unsupported_source[OF a b, of wit_env wit_bo _ wit_converter 0 "[wit_envmap_slot]"
      "wit_material [Some wit_envmap_slot]" 0]
  from t[of 0] c show ?thesis using a b by blast
qed

subsection \<open>Opacity and alpha halo\<close>

lemma apply_layer_props_opacity: "opacity (apply_layer_props E p L) = lp_opacity p / 100"
  by (simp add: apply_layer_props_def Let_def)

lemma apply_layer_props_blend:
  "blendFlags (state (apply_layer_props E p L)) =
     (blendFlags (state L) OR (if lp_opacity p < 100 then kBlendAlpha (plasma E) else 0)) OR
     (if lp_alpha_halo p then kBlendAlphaTestHigh (plasma E) else 0)"
  by (simp add: apply_layer_props_def Let_def)

lemma export_layer_animations_no_curves:
  "slot_texture slt = Some tex \<Longrightarrow> fst (gather_fcurves bm tex idx) = [] \<Longrightarrow>
     export_layer_animations E bm slt idx k s = Inr (k, s)"
  by (cases "gather_fcurves bm tex idx") (simp add: export_layer_animations_def)

lemma export_plain_none_slot:
  assumes "idx < length slots" "\<not> slot_use_stencil (slots ! idx)"
    "slot_texture (slots ! idx) = Some tex" "tex_type tex = ''NONE''"
    "fst (gather_fcurves bm tex idx) = []"
  shows "export_texture_slot E bo bm hsgmat slots idx s =
           Inr (1, addLayer hsgmat (length (layer_objs s))
                     (s\<lparr>layer_objs := layer_objs s @
                          [plain_slot_layer E bo bm (slots ! idx) (tex_plasma_layer tex)]\<rparr>))"
  unfolding export_texture_slot_plain[OF assms(1,2)]
  by (simp add: finish_texture_slot_def assms(3,4) export_texture_type_def export_texture_type_none_def
      export_layer_animations_no_curves[OF assms(3,5)] begin_slot_layer_eq upd_state_def upd_layer_def
      plain_slot_layer_def)

text \<open>
  C8. The custom layer properties set the layer's opacity to the override divided by 100,
  which lies in [0, 1] for an override in [0, 100]; they add the alpha blend flag exactly
  when the override is below 100, and the high alpha test flag exactly for an alpha halo.
  So an override of 50 on a layer without blend flags gives opacity 0.5 and the alpha
  blend flag alone, and an alpha halo at 100 adds the high alpha test flag only. A slot
  that is not a stencil, of a texture of type NONE without animation curves, is exported
  as one layer that carries exactly these settings on top of its standard flags.
\<close>

theorem layer_opacity_override:
  "opacity (apply_layer_props E p L) = lp_opacity p / 100 \<and>
   (0 \<le> lp_opacity p \<and> lp_opacity p \<le> 100 \<longrightarrow>
      0 \<le> opacity (apply_layer_props E p L) \<and> opacity (apply_layer_props E p L) \<le> 1) \<and>
   blendFlags (state (apply_layer_props E p L)) =
     (blendFlags (state L) OR (if lp_opacity p < 100 then kBlendAlpha (plasma E) else 0)) OR
     (if lp_alpha_halo p then kBlendAlphaTestHigh (plasma E) else 0) \<and>
   (lp_opacity p = 50 \<and> \<not> lp_alpha_halo p \<and> blendFlags (state L) = 0 \<longrightarrow>
      opacity (apply_layer_props E p L) = 1 / 2 \<and>
      blendFlags (state (apply_layer_props E p L)) = kBlendAlpha (plasma E)) \<and>
   (lp_opacity p = 100 \<and> lp_alpha_halo p \<longrightarrow>
      blendFlags (state (apply_layer_props E p L)) =
        blendFlags (state L) OR kBlendAlphaTestHigh (plasma E)) \<and>
   (idx < length slots \<and> \<not> slot_use_stencil (slots ! idx) \<and>
    slot_texture (slots ! idx) = Some tex \<and> tex_type tex = ''NONE'' \<and>
    fst (gather_fcurves bm tex idx) = [] \<longrightarrow>
      (\<exists>s'. export_texture_slot E bo bm hsgmat slots idx s = Inr (1, s') \<and>
            layer_objs s' = layer_objs s @
              [apply_layer_props E (tex_plasma_layer tex)
                 ((initial_slot_layer E bo bm (slots ! idx))
                    \<lparr>state := standard_layer_flags E (slots ! idx)
                                (state (initial_slot_layer E bo bm (slots ! idx)))\<rparr>)]))"
proof (intro conjI impI)
  show "opacity (apply_layer_props E p L) = lp_opacity p / 100"
    by (rule apply_layer_props_opacity)
  show "blendFlags (state (apply_layer_props E p L)) =
     (blendFlags (state L) OR (if lp_opacity p < 100 then kBlendAlpha (plasma E) else 0)) OR
     (if lp_alpha_halo p then kBlendAlphaTestHigh (plasma E) else 0)"
    by (rule apply_layer_props_blend)
next
  assume "0 \<le> lp_opacity p \<and> lp_opacity p \<le> 100"
  then show "0 \<le> opacity (apply_layer_props E p L)" "opacity (apply_layer_props E p L) \<le> 1"
    by (simp_all add: apply_layer_props_opacity)
next
  assume h: "lp_opacity p = 50 \<and> \<not> lp_alpha_halo p \<and> blendFlags (state L) = 0"
  show "opacity (apply_layer_props E p L) = 1 / 2"
    using h by (simp add: apply_layer_props_opacity)
  show "blendFlags (state (apply_layer_props E p L)) = kBlendAlpha (plasma E)"
    using h by (simp add: apply_layer_props_blend)
next
  assume "lp_opacity p = 100 \<and> lp_alpha_halo p"
  then show "blendFlags (state (apply_layer_props E p L)) =
        blendFlags (state L) OR kBlendAlphaTestHigh (plasma E)"
    by (simp add: apply_layer_props_blend)
next
  assume h: "idx < length slots \<and> \<not> slot_use_stencil (slots ! idx) \<and>
    slot_texture (slots ! idx) = Some tex \<and> tex_type tex = ''NONE'' \<and>
    fst (gather_fcurves bm tex idx) = []"
  then have "export_texture_slot E bo bm hsgmat slots idx s =
           Inr (1, addLayer hsgmat (length (layer_objs s))
                     (s\<lparr>layer_objs := layer_objs s @
                          [plain_slot_layer E bo bm (slots ! idx) (tex_plasma_layer tex)]\<rparr>))"
    using export_plain_none_slot by blast
  then show "\<exists>s'. export_texture_slot E bo bm hsgmat slots idx s = Inr (1, s') \<and>
            layer_objs s' = layer_objs s @
              [apply_layer_props E (tex_plasma_layer tex)
                 ((initial_slot_layer E bo bm (slots ! idx))
                    \<lparr>state := standard_layer_flags E (slots ! idx)
                                (state (initial_slot_layer E bo bm (slots ! idx)))\<rparr>)]"
    by (simp add: plain_slot_layer_def)
qed

lemma wit_plain_layer_blend:
  "blendFlags (state ((initial_slot_layer wit_env wit_bo bm (wit_opacity_slot op halo))
      \<lparr>state := standard_layer_flags wit_env (wit_opacity_slot op halo)
                  (state (initial_slot_layer wit_env wit_bo bm (wit_opacity_slot op halo)))\<rparr>)) = 0"
  by (simp add: initial_slot_layer_def propagate_material_settings_def new_plLayer_def Let_def
      standard_layer_flags_def wit_opacity_slot_def wit_slot_def wit_env_def wit_blank_layer_def
      wit_blank_state_def wit_bo_def split: option.splits)

lemma wit_opacity_slot_hyps:
  "0 < length [wit_opacity_slot op halo] \<and> \<not> slot_use_stencil ([wit_opacity_slot op halo] ! 0) \<and>
   slot_texture ([wit_opacity_slot op halo] ! 0) =
     Some (wit_texture\<lparr>tex_plasma_layer := wit_props\<lparr>lp_opacity := op, lp_alpha_halo := halo\<rparr>\<rparr>) \<and>
   tex_type (wit_texture\<lparr>tex_plasma_layer := wit_props\<lparr>lp_opacity := op, lp_alpha_halo := halo\<rparr>\<rparr>) = ''NONE'' \<and>
   fst (gather_fcurves (wit_material [Some (wit_opacity_slot op halo)])
          (wit_texture\<lparr>tex_plasma_layer := wit_props\<lparr>lp_opacity := op, lp_alpha_halo := halo\<rparr>\<rparr>) 0) = []"
  by (simp add: wit_opacity_slot_def wit_slot_def wit_texture_def wit_material_def gather_fcurves_def
      harvest_fcurves_def)

theorem layer_opacity_override_witness:
  "(\<exists>s'. export_texture_slot wit_env wit_bo (wit_material [Some (wit_opacity_slot 50 False)]) 0
            [wit_opacity_slot 50 False] 0 wit_converter = Inr (1, s') \<and>
         opacity (layer_objs s' ! 0) = 1 / 2 \<and>
         blendFlags (state (layer_objs s' ! 0)) = 2) \<and>
   (\<exists>s'. export_texture_slot wit_env wit_bo (wit_material [Some (wit_opacity_slot 100 True)]) 0
            [wit_opacity_slot 100 True] 0 wit_converter = Inr (1, s') \<and>
         opacity (layer_objs s' ! 0) = 1 \<and>
         blendFlags (state (layer_objs s' ! 0)) = 0x4000000)"
proof -
  have k: "kBlendAlpha (plasma wit_env) = 2" "kBlendAlphaTestHigh (plasma wit_env) = 0x4000000"
    by (simp_all add: wit_env_def wit_plasma_def)
  have z: "layer_objs wit_converter = []" by (simp add: wit_converter_def)
  have part: "\<exists>s'. export_texture_slot wit_env wit_bo (wit_material [Some (wit_opacity_slot op halo)]) 0
            [wit_opacity_slot op halo] 0 wit_converter = Inr (1, s') \<and>
         opacity (layer_objs s' ! 0) = o' \<and> blendFlags (state (layer_objs s' ! 0)) = b'"
    if c: "(op = 50 \<and> \<not> halo \<and> o' = 1 / 2 \<and> b' = 2) \<or> (op = 100 \<and> halo \<and> o' = 1 \<and> b' = 0x4000000)"
    for op halo o' b'
  proof -
    let ?slt = "wit_opacity_slot op halo"
    let ?bm = "wit_material [Some ?slt]"
    let ?p = "wit_props\<lparr>lp_opacity := op, lp_alpha_halo := halo\<rparr>"
    let ?tex = "wit_texture\<lparr>tex_plasma_layer := ?p\<rparr>"
    let ?L = "(initial_slot_layer wit_env wit_bo ?bm ?slt)
                \<lparr>state := standard_layer_flags wit_env ?slt (state (initial_slot_layer wit_env wit_bo ?bm ?slt))\<rparr>"
    note t = layer_opacity_override[of wit_env ?p ?L 0 "[?slt]" ?tex ?bm wit_bo 0 wit_converter]
    have p: "lp_opacity ?p = op" "lp_alpha_halo ?p = halo" "tex_plasma_layer ?tex = ?p" by simp_all
    have bf: "blendFlags (state ?L) = 0" by (rule wit_plain_layer_blend)
    from t wit_opacity_slot_hyps[of op halo] obtain s' where
      r: "export_texture_slot wit_env wit_bo ?bm 0 [?slt] 0 wit_converter = Inr (1, s')"
         "layer_objs s' = layer_objs wit_converter @ [apply_layer_props wit_env ?p ?L]"
      by auto
    have l: "layer_objs s' ! 0 = apply_layer_props wit_env ?p ?L" using r(2) by (simp add: z)
    from c show ?thesis
    proof
      assume a: "op = 50 \<and> \<not> halo \<and> o' = 1 / 2 \<and> b' = 2"
      then have "lp_opacity ?p = 50 \<and> \<not> lp_alpha_halo ?p \<and> blendFlags (state ?L) = 0"
        using bf by simp
      with t have "opacity (apply_layer_props wit_env ?p ?L) = 1 / 2 \<and>
                   blendFlags (state (apply_layer_props wit_env ?p ?L)) = kBlendAlpha (plasma wit_env)"
        by blast
      then show ?thesis using r(1) l a by (auto simp add: k)
    next
      assume a: "op = 100 \<and> halo \<and> o' = 1 \<and> b' = 0x4000000"
      then have "lp_opacity ?p = 100 \<and> lp_alpha_halo ?p" by simp
      with t have "blendFlags (state (apply_layer_props wit_env ?p ?L)) =
                     blendFlags (state ?L) OR kBlendAlphaTestHigh (plasma wit_env)"
        by blast
      moreover from t have "opacity (apply_layer_props wit_env ?p ?L) = lp_opacity ?p / 100" by blast
      ultimately show ?thesis using r(1) l a bf by (auto simp add: k)
    qed
  qed
  show ?thesis using part[of 50 False "1 / 2" 2] part[of 100 True 1 "0x4000000"] by simp
qed

subsection \<open>Layer animations without a controller\<close>

lemma opacity_animation_state:
  "snd (export_layer_opacity_animation E k fcs s) =
     (if \<exists>c\<in>set fcs. data_path c = ''plasma_layer.opacity''
      then upd_state k (\<lambda>st. st\<lparr>blendFlags := blendFlags st OR kBlendAlpha (plasma E)\<rparr>) s
      else s)"
  by (induction fcs) auto

text \<open>
  C9, as amended. When curves were gathered and neither sub-exporter produced a
  controller, the layer-animation exporter returns the base layer itself, without error
  and without allocating a wrapper; the state is the one it was called in, except that
  the base layer has the alpha blend flag set when one of the curves is on
  \<open>plasma_layer.opacity\<close>.
\<close>

theorem layer_animations_without_controller:
  assumes "slot_texture slt = Some tex"
    and "gather_fcurves bm tex idx = (fcs, mat_action, tex_action)" and "fcs \<noteq> []"
    and "fst (export_layer_opacity_animation E base fcs s) = None"
    and "export_layer_transform_animation E slt fcs = None"
  shows "\<exists>s'. export_layer_animations E bm slt idx base s = Inr (base, s') \<and>
              length (layer_objs s') = length (layer_objs s) \<and>
              s' = (if \<exists>c\<in>set fcs. data_path c = ''plasma_layer.opacity''
                    then upd_state base
                           (\<lambda>st. st\<lparr>blendFlags := blendFlags st OR kBlendAlpha (plasma E)\<rparr>) s
                    else s)"
proof -
  obtain c s1 where o: "export_layer_opacity_animation E base fcs s = (c, s1)"
    by (cases "export_layer_opacity_animation E base fcs s") auto
  have c: "c = None" using assms(4) o by simp
  have s1: "s1 = (if \<exists>c\<in>set fcs. data_path c = ''plasma_layer.opacity''
                  then upd_state base (\<lambda>st. st\<lparr>blendFlags := blendFlags st OR kBlendAlpha (plasma E)\<rparr>) s
                  else s)"
    using opacity_animation_state[of E base fcs s] o by simp
  have "export_layer_animations E bm slt idx base s = Inr (base, s1)"
    unfolding export_layer_animations_unfold[OF assms(1,2) o] using assms(3,5) c by simp
  moreover have "length (layer_objs s1) = length (layer_objs s)"
    using opacity_animation_frame[OF o] by blast
  ultimately show ?thesis using s1 by blast
qed

lemma wit_gather:
  "gather_fcurves (wit_material []) (wit_texture\<lparr>tex_animation_data := Some (Some (wit_action path))\<rparr>) 0 =
     ([\<lparr>data_path = path, fc_id = 0\<rparr>], None, Some (wit_action path))"
  by (simp add: gather_fcurves_def harvest_fcurves_def wit_material_def wit_action_def)

lemma wit_no_controllers:
  "fst (export_layer_opacity_animation wit_env k fcs s) = None"
  "export_layer_transform_animation wit_env slt fcs = None"
  by (induction fcs) (simp_all add: export_layer_transform_animation_def wit_env_def)

text \<open>
  C9 as stated fails: with a curve on \<open>plasma_layer.opacity\<close> for which no controller
  is made, the base layer is returned with the alpha blend flag added.
\<close>

theorem layer_animations_counterexample:
  "export_layer_animations wit_env (wit_material []) (wit_animated_slot ''plasma_layer.opacity'') 0 0
     wit_one_layer =
     Inr (0, wit_converter\<lparr>layer_objs := [wit_blank_layer\<lparr>state := wit_blank_state\<lparr>blendFlags := 2\<rparr>\<rparr>]\<rparr>) \<and>
   blendFlags (state (layer_objs wit_one_layer ! 0)) = 0"
proof -
  let ?tex = "wit_texture\<lparr>tex_animation_data := Some (Some (wit_action ''plasma_layer.opacity''))\<rparr>"
  have t: "slot_texture (wit_animated_slot ''plasma_layer.opacity'') = Some ?tex"
    by (simp add: wit_animated_slot_def wit_slot_def)
  have o: "export_layer_opacity_animation wit_env 0 [\<lparr>data_path = ''plasma_layer.opacity'', fc_id = 0\<rparr>] wit_one_layer =
             (None, wit_converter\<lparr>layer_objs := [wit_blank_layer\<lparr>state := wit_blank_state\<lparr>blendFlags := 2\<rparr>\<rparr>]\<rparr>)"
    by (simp add: wit_env_def wit_plasma_def wit_one_layer_def upd_state_def upd_layer_def
        wit_blank_layer_def wit_blank_state_def)
  have "export_layer_animations wit_env (wit_material []) (wit_animated_slot ''plasma_layer.opacity'') 0 0
     wit_one_layer =
     Inr (0, wit_converter\<lparr>layer_objs := [wit_blank_layer\<lparr>state := wit_blank_state\<lparr>blendFlags := 2\<rparr>\<rparr>]\<rparr>)"
    unfolding export_layer_animations_unfold[OF t wit_gather o]
    by (simp add: wit_no_controllers)
  moreover have "blendFlags (state (layer_objs wit_one_layer ! 0)) = 0"
    by (simp add: wit_one_layer_def wit_blank_layer_def wit_blank_state_def)
  ultimately show ?thesis by blast
qed

theorem layer_animations_without_controller_witness:
  "(\<exists>s'. export_layer_animations wit_env (wit_material []) (wit_animated_slot ''plasma_layer.opacity'') 0 0
            wit_one_layer = Inr (0, s') \<and>
         length (layer_objs s') = 1 \<and>
         s' = upd_state 0 (\<lambda>st. st\<lparr>blendFlags := blendFlags st OR 2\<rparr>) wit_one_layer) \<and>
   export_layer_animations wit_env (wit_material []) (wit_animated_slot ''offset'') 0 0 wit_one_layer
     = Inr (0, wit_one_layer)"
proof -
  have part: "\<exists>s'. export_layer_animations wit_env (wit_material []) (wit_animated_slot path) 0 0
            wit_one_layer = Inr (0, s') \<and>
         length (layer_objs s') = length (layer_objs wit_one_layer) \<and>
         s' = (if \<exists>c\<in>set [\<lparr>data_path = path, fc_id = 0\<rparr>]. data_path c = ''plasma_layer.opacity''
               then upd_state 0 (\<lambda>st. st\<lparr>blendFlags := blendFlags st OR kBlendAlpha (plasma wit_env)\<rparr>) wit_one_layer
               else wit_one_layer)" for path
  proof -
    have t: "slot_texture (wit_animated_slot path) =
               Some (wit_texture\<lparr>tex_animation_data := Some (Some (wit_action path))\<rparr>)"
      by (simp add: wit_animated_slot_def wit_slot_def)
    have n: "[\<lparr>data_path = path, fc_id = 0\<rparr>] \<noteq> []" by simp
    show ?thesis
      by (rule layer_animations_without_controller[OF t wit_gather n wit_no_controllers])
  qed
  have k: "kBlendAlpha (plasma wit_env) = 2" by (simp add: wit_env_def wit_plasma_def)
  have l: "length (layer_objs wit_one_layer) = 1" by (simp add: wit_one_layer_def)
  from part[of "''plasma_layer.opacity''"] part[of "''offset''"] show ?thesis
    unfolding k l by simp
qed

subsection \<open>Stencil slots\<close>

lemma finish_layer_animation_underLay [simp]:
  "underLay (finish_layer_animation E p k fr L) = Some k"
  by (simp add: finish_layer_animation_def Let_def)

lemma export_layer_animations_final:
  assumes "export_layer_animations E bm slt idx k s = Inr (final, s')"
  shows "final = k \<or> underLay (layer_objs s' ! final) = Some k"
proof -
  from assms obtain tex where t: "slot_texture slt = Some tex"
    by (auto simp add: export_layer_animations_def split: option.splits)
  obtain fcs ma ta where g: "gather_fcurves bm tex idx = (fcs, ma, ta)" by (cases "gather_fcurves bm tex idx") auto
  obtain c s1 where o: "export_layer_opacity_animation E k fcs s = (c, s1)"
    by (cases "export_layer_opacity_animation E k fcs s") auto
  show ?thesis
    using assms unfolding export_layer_animations_unfold[OF t g o]
    by (auto simp add: add_layer_object_def split: if_splits option.splits)
qed

lemma finish_texture_slot_final:
  assumes "finish_texture_slot E bo bm hsgmat slt idx k num s = Inr (n, s')"
    "hsgmat < length (materials s)" "k < length (layer_objs s)"
  shows "last (layers (materials s' ! hsgmat)) = k \<or>
         underLay (layer_objs s' ! last (layers (materials s' ! hsgmat))) = Some k"
proof -
  from assms(1) obtain tex where t: "slot_texture slt = Some tex"
    by (auto simp add: finish_texture_slot_def split: option.splits)
  let ?s0 = "upd_layer k (apply_layer_props E (tex_plasma_layer tex)) s"
  from assms(1) t obtain s1 where e: "export_texture_type E bo k slt tex ?s0 = Inr s1"
    by (auto simp add: finish_texture_slot_def split: sum.splits)
  from assms(1) t e obtain final s2 where a: "export_layer_animations E bm slt idx k s1 = Inr (final, s2)"
    and r: "s' = addLayer hsgmat final s2"
    by (auto simp add: finish_texture_slot_def split: sum.splits)
  have k0: "k < length (layer_objs ?s0)" using assms(3) by simp
  note f1 = export_texture_type_frame[OF e k0]
  have k1: "k < length (layer_objs s1)" using f1 k0 layers_frame_length by fastforce
  note f2 = export_layer_animations_frame[OF a k1]
  have "materials s2 = materials s" using f1 f2 by (simp add: keeps_materials_def)
  then have "last (layers (materials s' ! hsgmat)) = final" using assms(2) by (simp add: r)
  then show ?thesis using export_layer_animations_final[OF a] by (simp add: r)
qed

lemma bind_next_flags_fields:
  "miscFlags (bind_next_flags E st) =
     miscFlags st OR (kMiscBindNext (plasma E) OR kMiscRestartPassHere (plasma E))"
  "blendFlags (bind_next_flags E st) =
     (if blendFlags st AND kBlendMask (plasma E) = 0 then blendFlags st OR kBlendAlpha (plasma E)
      else blendFlags st)"
  "clampFlags (bind_next_flags E st) = clampFlags st"
  "ZFlags (bind_next_flags E st) = ZFlags st"
  "shadeFlags (bind_next_flags E st) = shadeFlags st"
  by (simp_all add: bind_next_flags_def Let_def)

text \<open>
  C2. A returning export of a stencil slot reports 2 slots. The next slot is exported
  first, in the state where the stencil's layer has its flags; its last layer, the base
  layer, is followed directly by the layer of the stencil slot (the slot's own layer or
  the animation layer over it) at the end of the material's layers, and these two are
  all that is added when the next slot is not a stencil itself. In the final state the
  base layer is as the export of the next slot left it, with the bind-next and
  restart-pass flags added to its misc flags, and with the alpha blend flag added to its
  blend flags exactly when these had no bit of the blend mask.
\<close>

theorem stencil_slot_export:
  assumes "export_texture_slot E bo bm hsgmat slots idx s = Inr (n, s')"
    and "slot_use_stencil (slots ! idx)" and "hsgmat < length (materials s)"
  shows "n = 2 \<and>
    (\<exists>tex m s3 mid base final.
        slot_texture (slots ! idx) = Some tex \<and>
        export_texture_slot E bo bm hsgmat slots (Suc idx)
          (stencil_begin E bo bm hsgmat (slots ! idx) tex s) = Inr (m, s3) \<and>
        layers (materials s3 ! hsgmat) = layers (materials s ! hsgmat) @ mid @ [base] \<and>
        layers (materials s' ! hsgmat) = layers (materials s ! hsgmat) @ mid @ [base, final] \<and>
        (\<not> slot_use_stencil (slots ! Suc idx) \<longrightarrow> mid = []) \<and>
        (final = length (layer_objs s) \<or>
         underLay (layer_objs s' ! final) = Some (length (layer_objs s))) \<and>
        layer_objs s' ! base =
          (layer_objs s3 ! base)\<lparr>state := bind_next_flags E (state (layer_objs s3 ! base))\<rparr> \<and>
        miscFlags (state (layer_objs s' ! base)) =
          miscFlags (state (layer_objs s3 ! base)) OR
          (kMiscBindNext (plasma E) OR kMiscRestartPassHere (plasma E)) \<and>
        blendFlags (state (layer_objs s' ! base)) =
          (if blendFlags (state (layer_objs s3 ! base)) AND kBlendMask (plasma E) = 0
           then blendFlags (state (layer_objs s3 ! base)) OR kBlendAlpha (plasma E)
           else blendFlags (state (layer_objs s3 ! base))))"
proof -
  note run = assms(1) and st = assms(2) and h = assms(3)
  have inr: "idx < length slots" using export_texture_slot_in_range[OF run] .
  from export_texture_slot_stencil_texture[OF run st] obtain tex where
    t: "slot_texture (slots ! idx) = Some tex" and nl: "Suc idx \<noteq> length slots" by blast
  let ?k = "length (layer_objs s)"
  let ?s2 = "stencil_begin E bo bm hsgmat (slots ! idx) tex s"
  note u = export_texture_slot_stencil[OF inr st t nl, of E bo bm hsgmat s]
  from run obtain m s3 where r3: "export_texture_slot E bo bm hsgmat slots (Suc idx) ?s2 = Inr (m, s3)"
    unfolding u by (auto split: sum.splits)
  from run r3 obtain s4 where b: "bind_previous_layer E hsgmat s3 = Inr s4"
    unfolding u by (auto split: sum.splits)
  from run r3 b have f: "finish_texture_slot E bo bm hsgmat (slots ! idx) idx ?k 2 s4 = Inr (n, s')"
    unfolding u by simp
  have h2: "hsgmat < length (materials ?s2)" using h by (simp add: stencil_begin_fields)
  from export_texture_slot_exported[OF r3 h2] obtain new where
    ih: "slot_exported hsgmat new ?s2 s3"
    and single: "\<not> slot_use_stencil (slots ! Suc idx) \<longrightarrow> length new = 1"
    by blast
  from slot_exported_stencil[OF ih b f h] obtain final where
    e: "slot_exported hsgmat (new @ [final]) s s'" and n: "n = 2"
    and bobj: "layer_objs s' ! last new =
             (layer_objs s3 ! last new)\<lparr>state := bind_next_flags E (state (layer_objs s3 ! last new))\<rparr>"
    by blast
  have nn: "new \<noteq> []" using ih by (simp add: slot_exported_def)
  then have new: "new = butlast new @ [last new]" by simp
  have l3: "layers (materials s3 ! hsgmat) = layers (materials s ! hsgmat) @ butlast new @ [last new]"
    using ih h nn by (simp add: slot_exported_def stencil_begin_fields)
  have l': "layers (materials s' ! hsgmat) = layers (materials s ! hsgmat) @ butlast new @ [last new, final]"
    using e nn by (simp add: slot_exported_def)
  have mid: "\<not> slot_use_stencil (slots ! Suc idx) \<longrightarrow> butlast new = []"
    using single by (cases new) auto
  from bind_previous_layer_eq[OF b] have s4: "s4 = upd_state (last (layers (materials s3 ! hsgmat))) (bind_next_flags E) s3"
    by blast
  have len3: "length (materials s3) = length (materials s)" "Suc ?k \<le> length (layer_objs s3)"
    using ih by (simp_all add: slot_exported_def stencil_begin_fields layers_frame_def)
  have h4: "hsgmat < length (materials s4)" using h len3 by (simp add: s4)
  have k4: "?k < length (layer_objs s4)" using len3 by (simp add: s4)
  have lastf: "last (layers (materials s' ! hsgmat)) = final" using l' by simp
  from finish_texture_slot_final[OF f h4 k4]
  have fin: "final = ?k \<or> underLay (layer_objs s' ! final) = Some ?k" unfolding lastf .
  have misc: "miscFlags (state (layer_objs s' ! last new)) =
          miscFlags (state (layer_objs s3 ! last new)) OR
          (kMiscBindNext (plasma E) OR kMiscRestartPassHere (plasma E))"
    by (simp add: bobj bind_next_flags_fields)
  have blend: "blendFlags (state (layer_objs s' ! last new)) =
          (if blendFlags (state (layer_objs s3 ! last new)) AND kBlendMask (plasma E) = 0
           then blendFlags (state (layer_objs s3 ! last new)) OR kBlendAlpha (plasma E)
           else blendFlags (state (layer_objs s3 ! last new)))"
    by (simp add: bobj bind_next_flags_fields)
  show ?thesis
    using n t r3 l3 l' mid fin bobj misc blend by blast
qed

lemma wit_stencil_slots_facts:
  "0 < length wit_stencil_slots" "Suc 0 < length wit_stencil_slots"
  "Suc 0 \<noteq> length wit_stencil_slots"
  "wit_stencil_slots ! 0 = wit_stencil_slot" "wit_stencil_slots ! Suc 0 = wit_slot"
  "slot_use_stencil wit_stencil_slot" "\<not> slot_use_stencil wit_slot"
  "slot_texture wit_stencil_slot = Some wit_texture" "slot_texture wit_slot = Some wit_texture"
  "tex_type wit_texture = ''NONE''"
  "fst (gather_fcurves (wit_material (map Some wit_stencil_slots)) wit_texture i) = []"
  by (simp_all add: wit_stencil_slots_def wit_stencil_slot_def wit_slot_def wit_texture_def
      gather_fcurves_def harvest_fcurves_def wit_material_def)

lemma wit_stencil_hyps:
  "0 < length wit_stencil_slots" "slot_use_stencil (wit_stencil_slots ! 0)"
  "slot_texture (wit_stencil_slots ! 0) = Some wit_texture" "Suc 0 \<noteq> length wit_stencil_slots"
  by (simp_all add: wit_stencil_slots_def wit_stencil_slot_def wit_slot_def)

lemma wit_stencil_next:
  "export_texture_slot wit_env wit_bo (wit_material (map Some wit_stencil_slots)) 0 wit_stencil_slots (Suc 0) s2 =
     Inr (1, addLayer 0 (length (layer_objs s2))
               (s2\<lparr>layer_objs := layer_objs s2 @
                    [plain_slot_layer wit_env wit_bo (wit_material (map Some wit_stencil_slots)) wit_slot
                       (tex_plasma_layer wit_texture)]\<rparr>))"
  using export_plain_none_slot[of "Suc 0" wit_stencil_slots wit_texture
      "wit_material (map Some wit_stencil_slots)" wit_env wit_bo 0 s2]
  by (simp add: wit_stencil_slots_facts)

lemma wit_stencil_runs:
  "\<exists>n s'. export_texture_slot wit_env wit_bo (wit_material (map Some wit_stencil_slots)) 0
            wit_stencil_slots 0 wit_one_material = Inr (n, s')"
proof -
  have u: "export_texture_slot wit_env wit_bo (wit_material (map Some wit_stencil_slots)) 0
            wit_stencil_slots 0 wit_one_material =
           (case export_texture_slot wit_env wit_bo (wit_material (map Some wit_stencil_slots)) 0 wit_stencil_slots (Suc 0)
                   (stencil_begin wit_env wit_bo (wit_material (map Some wit_stencil_slots)) 0 wit_stencil_slot wit_texture wit_one_material) of
              Inl err \<Rightarrow> Inl err
            | Inr (n, s3) \<Rightarrow>
                (case bind_previous_layer wit_env 0 s3 of
                   Inl err \<Rightarrow> Inl err
                 | Inr s4 \<Rightarrow>
                     finish_texture_slot wit_env wit_bo (wit_material (map Some wit_stencil_slots)) 0
                       wit_stencil_slot 0 (length (layer_objs wit_one_material)) 2 s4))"
    using export_texture_slot_stencil[OF wit_stencil_hyps, of wit_env wit_bo
        "wit_material (map Some wit_stencil_slots)" 0 wit_one_material]
    unfolding wit_stencil_slots_facts(4) .
  show ?thesis
    unfolding u wit_stencil_next
    by (simp add: bind_previous_layer_def stencil_begin_fields wit_one_material_def new_hsGMaterial_def
        finish_texture_slot_def wit_stencil_slots_facts export_texture_type_def
        export_texture_type_none_def export_layer_animations_no_curves)
qed

lemma wit_plain_layer_state:
  "blendFlags (state (plain_slot_layer wit_env wit_bo bm wit_slot (tex_plasma_layer wit_texture))) = 0"
  "miscFlags (state (plain_slot_layer wit_env wit_bo bm wit_slot (tex_plasma_layer wit_texture))) = 0"
  by (simp_all add: wit_blank_state_def plain_slot_layer_def apply_layer_props_def initial_slot_layer_def
      propagate_material_settings_def new_plLayer_def Let_def standard_layer_flags_def
      wit_slot_def wit_texture_def wit_props_def wit_env_def wit_blank_layer_def wit_bo_def
      split: option.splits)

theorem stencil_slot_export_witness:
  "slot_use_stencil (wit_stencil_slots ! 0) \<and> 0 < length (materials wit_one_material) \<and>
   \<not> slot_use_stencil (wit_stencil_slots ! Suc 0) \<and>
   (\<exists>s' final.
      export_texture_slot wit_env wit_bo (wit_material (map Some wit_stencil_slots)) 0
        wit_stencil_slots 0 wit_one_material = Inr (2, s') \<and>
      layers (materials s' ! 0) = [Suc 0, final] \<and>
      miscFlags (state (layer_objs s' ! Suc 0)) = 0x8400 \<and>
      blendFlags (state (layer_objs s' ! Suc 0)) = 2)"
proof -
  let ?bm = "wit_material (map Some wit_stencil_slots)"
  have a: "slot_use_stencil (wit_stencil_slots ! 0)" by (rule wit_stencil_hyps)
  have b: "0 < length (materials wit_one_material)" by (simp add: wit_one_material_def)
  have c: "\<not> slot_use_stencil (wit_stencil_slots ! Suc 0)" by (simp add: wit_stencil_slots_facts)
  from wit_stencil_runs obtain n s' where
    run: "export_texture_slot wit_env wit_bo ?bm 0 wit_stencil_slots 0 wit_one_material = Inr (n, s')"
    by blast
  from stencil_slot_export[OF run a b] obtain tex m s3 mid base final where
    n: "n = 2" and t: "slot_texture (wit_stencil_slots ! 0) = Some tex"
    and r3: "export_texture_slot wit_env wit_bo ?bm 0 wit_stencil_slots (Suc 0)
          (stencil_begin wit_env wit_bo ?bm 0 (wit_stencil_slots ! 0) tex wit_one_material) = Inr (m, s3)"
    and l3: "layers (materials s3 ! 0) = layers (materials wit_one_material ! 0) @ mid @ [base]"
    and l': "layers (materials s' ! 0) = layers (materials wit_one_material ! 0) @ mid @ [base, final]"
    and mid: "\<not> slot_use_stencil (wit_stencil_slots ! Suc 0) \<longrightarrow> mid = []"
    and misc: "miscFlags (state (layer_objs s' ! base)) =
          miscFlags (state (layer_objs s3 ! base)) OR
          (kMiscBindNext (plasma wit_env) OR kMiscRestartPassHere (plasma wit_env))"
    and blend: "blendFlags (state (layer_objs s' ! base)) =
          (if blendFlags (state (layer_objs s3 ! base)) AND kBlendMask (plasma wit_env) = 0
           then blendFlags (state (layer_objs s3 ! base)) OR kBlendAlpha (plasma wit_env)
           else blendFlags (state (layer_objs s3 ! base)))"
    by blast
  have m0: "mid = []" using mid c by blast
  have e0: "layers (materials wit_one_material ! 0) = []"
    by (simp add: wit_one_material_def new_hsGMaterial_def)
  let ?s2 = "stencil_begin wit_env wit_bo ?bm 0 (wit_stencil_slots ! 0) tex wit_one_material"
  have s3: "s3 = addLayer 0 (length (layer_objs ?s2))
               (?s2\<lparr>layer_objs := layer_objs ?s2 @
                    [plain_slot_layer wit_env wit_bo ?bm wit_slot (tex_plasma_layer wit_texture)]\<rparr>)"
    using r3 unfolding wit_stencil_next by simp
  have len2: "length (layer_objs ?s2) = Suc 0"
    by (simp add: stencil_begin_fields wit_one_material_def wit_converter_def)
  have "layers (materials s3 ! 0) = [Suc 0]"
    unfolding s3 by (simp add: stencil_begin_fields wit_one_material_def wit_converter_def new_hsGMaterial_def)
  then have base: "base = Suc 0" using l3 by (simp add: e0 m0)
  have lo: "layer_objs wit_one_material = []" by (simp add: wit_one_material_def wit_converter_def)
  have obj: "blendFlags (state (layer_objs s3 ! Suc 0)) = 0" "miscFlags (state (layer_objs s3 ! Suc 0)) = 0"
    unfolding s3 by (simp_all add: stencil_begin_fields lo wit_plain_layer_state)
  have k: "kMiscBindNext (plasma wit_env) OR kMiscRestartPassHere (plasma wit_env) = 0x8400"
     "kBlendMask (plasma wit_env) = 0xF5E" "kBlendAlpha (plasma wit_env) = 2"
    by (simp_all add: wit_env_def wit_plasma_def)
  have r1: "layers (materials s' ! 0) = [Suc 0, final]" using l' by (simp add: e0 m0 base)
  have r2: "miscFlags (state (layer_objs s' ! Suc 0)) = 0x8400"
    using misc unfolding base obj k by simp
  have r3': "blendFlags (state (layer_objs s' ! Suc 0)) = 2"
    using blend unfolding base obj k by simp
  show ?thesis using a b c run n r1 r2 r3' by blast
qed

subsection \<open>Bitmaps per page\<close>

lemma assign_mipmaps_spec:
  assumes "pages_ok mm pages s"
  shows "\<exists>pages' extra.
           pages \<subseteq>\<^sub>m pages' \<and> pages_ok mm pages' (assign_mipmaps E mm ls pages s) \<and>
           mipmaps (assign_mipmaps E mm ls pages s) = mipmaps s @ extra \<and>
           length (layer_objs (assign_mipmaps E mm ls pages s)) = length (layer_objs s) \<and>
           (\<forall>j. j \<notin> set ls \<longrightarrow> layer_objs (assign_mipmaps E mm ls pages s) ! j = layer_objs s ! j) \<and>
           (\<forall>l\<in>set ls. l < length (layer_objs s) \<longrightarrow>
              (\<exists>m. pages' (get_textures_page E l) = Some m \<and>
                   texture (layer_objs (assign_mipmaps E mm ls pages s) ! l) = Some (MipmapKey m)))"
  using assms
proof (induction ls arbitrary: pages s)
  case Nil
  then show ?case by (auto intro: exI[of _ pages])
next
  case (Cons l rest)
  let ?pg = "get_textures_page E l"
  define m where "m = (case pages ?pg of None \<Rightarrow> length (mipmaps s) | Some m \<Rightarrow> m)"
  define pages1 where "pages1 = (case pages ?pg of None \<Rightarrow> pages(?pg \<mapsto> m) | Some _ \<Rightarrow> pages)"
  define s0 where "s0 = (case pages ?pg of None \<Rightarrow> s\<lparr>mipmaps := mipmaps s @ [mm\<lparr>mm_page := ?pg\<rparr>]\<rparr> | Some _ \<Rightarrow> s)"
  define s1 where "s1 = upd_layer l (\<lambda>L. L\<lparr>texture := Some (MipmapKey m)\<rparr>) s0"
  have step: "assign_mipmaps E mm (l # rest) pages s = assign_mipmaps E mm rest pages1 s1"
    by (simp add: m_def pages1_def s0_def s1_def Let_def split: option.splits)
  have sub: "pages \<subseteq>\<^sub>m pages1"
    by (auto simp add: pages1_def map_le_def split: option.splits)
  have old: "\<And>pg' m'. pages pg' = Some m' \<Longrightarrow>
                m' < length (mipmaps s) \<and> mipmaps s ! m' = mm\<lparr>mm_page := pg'\<rparr>"
    using Cons.prems by (simp add: pages_ok_def)
  have ok1: "pages_ok mm pages1 s1"
    unfolding pages_ok_def
  proof (intro allI impI)
    fix pg' m'
    assume a: "pages1 pg' = Some m'"
    show "m' < length (mipmaps s1) \<and> mipmaps s1 ! m' = mm\<lparr>mm_page := pg'\<rparr>"
    proof (cases "pages ?pg")
      case (Some x)
      then show ?thesis using a old[of pg' m'] by (simp add: pages1_def s1_def s0_def)
    next
      case None
      show ?thesis
      proof (cases "pg' = ?pg")
        case True
        then show ?thesis using a None by (auto simp add: pages1_def s1_def s0_def m_def)
      next
        case False
        then have "pages pg' = Some m'" using a None by (simp add: pages1_def)
        from old[OF this] show ?thesis using None by (simp add: s1_def s0_def nth_append)
      qed
    qed
  qed
  have pm: "pages1 ?pg = Some m"
    by (auto simp add: pages1_def m_def split: option.splits)
  have mip1: "\<exists>ex. mipmaps s1 = mipmaps s @ ex"
    by (auto simp add: s1_def s0_def split: option.splits)
  have len1: "length (layer_objs s1) = length (layer_objs s)"
    by (auto simp add: s1_def s0_def split: option.splits)
  have oth1: "\<forall>j. j \<noteq> l \<longrightarrow> layer_objs s1 ! j = layer_objs s ! j"
    by (auto simp add: s1_def s0_def split: option.splits)
  have tex1: "l < length (layer_objs s) \<longrightarrow> texture (layer_objs s1 ! l) = Some (MipmapKey m)"
    by (auto simp add: s1_def s0_def split: option.splits)
  from Cons.IH[OF ok1] obtain pages' extra where
    ih: "pages1 \<subseteq>\<^sub>m pages'" "pages_ok mm pages' (assign_mipmaps E mm rest pages1 s1)"
        "mipmaps (assign_mipmaps E mm rest pages1 s1) = mipmaps s1 @ extra"
        "length (layer_objs (assign_mipmaps E mm rest pages1 s1)) = length (layer_objs s1)"
        "\<forall>j. j \<notin> set rest \<longrightarrow> layer_objs (assign_mipmaps E mm rest pages1 s1) ! j = layer_objs s1 ! j"
        "\<forall>l\<in>set rest. l < length (layer_objs s1) \<longrightarrow>
              (\<exists>m. pages' (get_textures_page E l) = Some m \<and>
                   texture (layer_objs (assign_mipmaps E mm rest pages1 s1) ! l) = Some (MipmapKey m))"
    by blast
  have p'm: "pages' ?pg = Some m" using ih(1) pm by (auto simp add: map_le_def dom_def)
  have sub': "pages \<subseteq>\<^sub>m pages'" using sub ih(1) map_le_trans by blast
  have mip: "\<exists>ex. mipmaps (assign_mipmaps E mm rest pages1 s1) = mipmaps s @ ex"
    using mip1 ih(3) by auto
  have head: "l < length (layer_objs s) \<longrightarrow>
              (\<exists>m. pages' ?pg = Some m \<and>
                   texture (layer_objs (assign_mipmaps E mm rest pages1 s1) ! l) = Some (MipmapKey m))"
  proof (cases "l \<in> set rest")
    case True
    then show ?thesis using ih(6) len1 by auto
  next
    case False
    then show ?thesis using ih(5) tex1 p'm by auto
  qed
  show ?case
    unfolding step
    using sub' ih(2) mip ih(4) len1 ih(5) oth1 ih(6) head
    by (intro exI[of _ pages']) auto
qed

lemma pages_ok_empty: "pages_ok mm Map.empty s"
  by (simp add: pages_ok_def)

lemma finalize_texture_shares:
  assumes "finalize_texture E k lyrs s = Inr s'" "l1 \<in> set lyrs" "l2 \<in> set lyrs"
    "l1 < length (layer_objs s)" "l2 < length (layer_objs s)"
  shows "\<exists>mm. prepare_mipmap E k = Inr mm \<and> shares_by_page E mm l1 l2 s'"
proof -
  from assms(1) obtain mm where p: "prepare_mipmap E k = Inr mm"
    and s': "s' = assign_mipmaps E mm lyrs Map.empty s"
    by (auto simp add: finalize_texture_def split: sum.splits)
  from assign_mipmaps_spec[where E=E and ls=lyrs and mm=mm and s=s and pages=Map.empty, OF pages_ok_empty] obtain pages' where
    ok: "pages_ok mm pages' s'"
    and tx: "\<forall>l\<in>set lyrs. l < length (layer_objs s) \<longrightarrow>
              (\<exists>m. pages' (get_textures_page E l) = Some m \<and>
                   texture (layer_objs s' ! l) = Some (MipmapKey m))"
    unfolding s' by blast
  from tx assms(2,4) obtain m1 where
    m1: "pages' (get_textures_page E l1) = Some m1" "texture (layer_objs s' ! l1) = Some (MipmapKey m1)"
    by blast
  from tx assms(3,5) obtain m2 where
    m2: "pages' (get_textures_page E l2) = Some m2" "texture (layer_objs s' ! l2) = Some (MipmapKey m2)"
    by blast
  from ok m1(1) have o1: "m1 < length (mipmaps s')"
    "mipmaps s' ! m1 = mm\<lparr>mm_page := get_textures_page E l1\<rparr>"
    by (simp_all add: pages_ok_def)
  from ok m2(1) have o2: "m2 < length (mipmaps s')"
    "mipmaps s' ! m2 = mm\<lparr>mm_page := get_textures_page E l2\<rparr>"
    by (simp_all add: pages_ok_def)
  have "m1 = m2 \<longleftrightarrow> get_textures_page E l1 = get_textures_page E l2"
  proof
    assume "m1 = m2"
    then have "mm_page (mm\<lparr>mm_page := get_textures_page E l1\<rparr>) =
               mm_page (mm\<lparr>mm_page := get_textures_page E l2\<rparr>)"
      using o1(2) o2(2) by simp
    then show "get_textures_page E l1 = get_textures_page E l2" by simp
  next
    assume "get_textures_page E l1 = get_textures_page E l2"
    then show "m1 = m2" using m1(1) m2(1) by simp
  qed
  then show ?thesis
    using p m1(2) m2(2) o1 o2 unfolding shares_by_page_def by blast
qed

lemma finalize_texture_frame:
  assumes "finalize_texture E k lyrs s = Inr s'"
  shows "(\<exists>extra. mipmaps s' = mipmaps s @ extra) \<and>
         length (layer_objs s') = length (layer_objs s) \<and>
         (\<forall>j. j \<notin> set lyrs \<longrightarrow> layer_objs s' ! j = layer_objs s ! j)"
proof -
  from assms obtain mm where s': "s' = assign_mipmaps E mm lyrs Map.empty s"
    by (auto simp add: finalize_texture_def split: sum.splits)
  from assign_mipmaps_spec[where E=E and ls=lyrs and mm=mm and s=s and pages=Map.empty, OF pages_ok_empty] show ?thesis
    unfolding s' by blast
qed

lemma entry_layers_triple [simp]: "entry_layers (hv, k, lyrs) = lyrs"
  by (simp add: entry_layers_def)

lemma finalize_entries_frame:
  "finalize_entries E p s = Inr s' \<Longrightarrow>
     (\<exists>extra. mipmaps s' = mipmaps s @ extra) \<and>
     length (layer_objs s') = length (layer_objs s) \<and>
     (\<forall>j. j \<notin> set (concat (map entry_layers p)) \<longrightarrow> layer_objs s' ! j = layer_objs s ! j)"
proof (induction p arbitrary: s)
  case Nil
  then show ?case by simp
next
  case (Cons e p)
  obtain hv k lyrs where e: "e = (hv, k, lyrs)" by (cases e) auto
  from Cons.prems obtain s1 where f: "finalize_texture E k lyrs s = Inr s1"
    and r: "finalize_entries E p s1 = Inr s'"
    by (auto simp add: e split: sum.splits)
  from finalize_texture_frame[OF f] Cons.IH[OF r] show ?case
    by (auto simp add: e)
qed

lemma shares_by_page_frame:
  assumes "shares_by_page E mm l1 l2 s" "mipmaps s' = mipmaps s @ extra"
    "layer_objs s' ! l1 = layer_objs s ! l1" "layer_objs s' ! l2 = layer_objs s ! l2"
  shows "shares_by_page E mm l1 l2 s'"
  using assms unfolding shares_by_page_def
  by (auto simp add: nth_append)

lemma finalize_entries_shares:
  assumes "finalize_entries E p s = Inr s'" "distinct (concat (map entry_layers p))"
    "(hv, k, lyrs) \<in> set p" "l1 \<in> set lyrs" "l2 \<in> set lyrs"
    "l1 < length (layer_objs s)" "l2 < length (layer_objs s)"
  shows "\<exists>mm. prepare_mipmap E k = Inr mm \<and> shares_by_page E mm l1 l2 s'"
  using assms
proof (induction p arbitrary: s)
  case Nil
  then show ?case by simp
next
  case (Cons e p)
  obtain hv' k' lyrs' where e: "e = (hv', k', lyrs')" by (cases e) auto
  from Cons.prems(1) obtain s1 where f: "finalize_texture E k' lyrs' s = Inr s1"
    and r: "finalize_entries E p s1 = Inr s'"
    by (auto simp add: e split: sum.splits)
  have d: "distinct (concat (map entry_layers p))"
    "set lyrs' \<inter> set (concat (map entry_layers p)) = {}"
    using Cons.prems(2) by (simp_all add: e)
  note f1 = finalize_texture_frame[OF f]
  show ?case
  proof (cases "(hv, k, lyrs) = e")
    case True
    then have eq: "k' = k" "lyrs' = lyrs" by (simp_all add: e)
    from finalize_texture_shares[OF f[unfolded eq] Cons.prems(4,5,6,7)] obtain mm where
      p: "prepare_mipmap E k = Inr mm" and sh: "shares_by_page E mm l1 l2 s1" by blast
    from finalize_entries_frame[OF r] obtain extra where
      fr: "mipmaps s' = mipmaps s1 @ extra"
          "\<forall>j. j \<notin> set (concat (map entry_layers p)) \<longrightarrow> layer_objs s' ! j = layer_objs s1 ! j"
      by blast
    have "l1 \<notin> set (concat (map entry_layers p))" "l2 \<notin> set (concat (map entry_layers p))"
      using d(2) Cons.prems(4,5) eq by auto
    then have "layer_objs s' ! l1 = layer_objs s1 ! l1" "layer_objs s' ! l2 = layer_objs s1 ! l2"
      using fr(2) by simp_all
    from shares_by_page_frame[OF sh fr(1) this] p show ?thesis by blast
  next
    case False
    then have m: "(hv, k, lyrs) \<in> set p" using Cons.prems(3) by simp
    have l: "l1 < length (layer_objs s1)" "l2 < length (layer_objs s1)"
      using f1 Cons.prems(6,7) by simp_all
    from Cons.IH[OF r d(1) m Cons.prems(4,5) l] show ?thesis .
  qed
qed

text \<open>
  C3. Let the layers of the pending table be pairwise distinct. After \<open>finalize\<close>, any
  two layers of one pending texture point at stored bitmaps that are the bitmap prepared
  for the texture, each on the page of its layer: the same bitmap object when the pages
  are equal, and two objects with equal dimensions, level count, compression, format and
  level data when the pages differ.
\<close>

theorem finalize_bitmap_sharing:
  assumes "finalize E s = Inr s'"
    and "distinct (concat (map entry_layers (pending s)))"
    and "(hv, k, lyrs) \<in> set (pending s)" and "l1 \<in> set lyrs" and "l2 \<in> set lyrs"
    and "l1 < length (layer_objs s)" and "l2 < length (layer_objs s)"
  shows "\<exists>mm m1 m2.
           prepare_mipmap E k = Inr mm \<and>
           texture (layer_objs s' ! l1) = Some (MipmapKey m1) \<and>
           texture (layer_objs s' ! l2) = Some (MipmapKey m2) \<and>
           m1 < length (mipmaps s') \<and> m2 < length (mipmaps s') \<and>
           mipmaps s' ! m1 = mm\<lparr>mm_page := get_textures_page E l1\<rparr> \<and>
           mipmaps s' ! m2 = mm\<lparr>mm_page := get_textures_page E l2\<rparr> \<and>
           (get_textures_page E l1 = get_textures_page E l2 \<longrightarrow> m1 = m2) \<and>
           (get_textures_page E l1 \<noteq> get_textures_page E l2 \<longrightarrow>
              m1 \<noteq> m2 \<and>
              mm_width (mipmaps s' ! m1) = mm_width (mipmaps s' ! m2) \<and>
              mm_height (mipmaps s' ! m1) = mm_height (mipmaps s' ! m2) \<and>
              mm_numLevels (mipmaps s' ! m1) = mm_numLevels (mipmaps s' ! m2) \<and>
              mm_compType (mipmaps s' ! m1) = mm_compType (mipmaps s' ! m2) \<and>
              mm_format (mipmaps s' ! m1) = mm_format (mipmaps s' ! m2) \<and>
              mm_dxtLevel (mipmaps s' ! m1) = mm_dxtLevel (mipmaps s' ! m2) \<and>
              mm_levels (mipmaps s' ! m1) = mm_levels (mipmaps s' ! m2))"
proof -
  from assms(1) have "finalize_entries E (pending s) s = Inr s'" by (simp add: finalize_def)
  from finalize_entries_shares[OF this assms(2-7)] obtain mm where
    p: "prepare_mipmap E k = Inr mm" and sh: "shares_by_page E mm l1 l2 s'" by blast
  from sh obtain m1 m2 where
    m: "texture (layer_objs s' ! l1) = Some (MipmapKey m1)"
       "texture (layer_objs s' ! l2) = Some (MipmapKey m2)"
       "m1 < length (mipmaps s')" "m2 < length (mipmaps s')"
       "mipmaps s' ! m1 = mm\<lparr>mm_page := get_textures_page E l1\<rparr>"
       "mipmaps s' ! m2 = mm\<lparr>mm_page := get_textures_page E l2\<rparr>"
       "m1 = m2 \<longleftrightarrow> get_textures_page E l1 = get_textures_page E l2"
    unfolding shares_by_page_def by blast
  have c: "mm_width (mipmaps s' ! m1) = mm_width (mipmaps s' ! m2)"
    "mm_height (mipmaps s' ! m1) = mm_height (mipmaps s' ! m2)"
    "mm_numLevels (mipmaps s' ! m1) = mm_numLevels (mipmaps s' ! m2)"
    "mm_compType (mipmaps s' ! m1) = mm_compType (mipmaps s' ! m2)"
    "mm_format (mipmaps s' ! m1) = mm_format (mipmaps s' ! m2)"
    "mm_dxtLevel (mipmaps s' ! m1) = mm_dxtLevel (mipmaps s' ! m2)"
    "mm_levels (mipmaps s' ! m1) = mm_levels (mipmaps s' ! m2)"
    by (simp_all add: m(5,6))
  show ?thesis
    using p m c by blast
qed

lemma wit_finalize_runs: "\<exists>s'. finalize wit_env wit_pending_state = Inr s'"
  by (simp add: finalize_def finalize_texture_def wit_pending_state_def wit_converter_def wit_prepare)

theorem finalize_bitmap_sharing_witness:
  "distinct (concat (map entry_layers (pending wit_pending_state))) \<and>
   (8, wit_key True False, [0, 1, 2]) \<in> set (pending wit_pending_state) \<and>
   get_textures_page wit_env 0 = get_textures_page wit_env 2 \<and>
   get_textures_page wit_env 0 \<noteq> get_textures_page wit_env 1 \<and>
   (\<exists>s'. finalize wit_env wit_pending_state = Inr s' \<and>
         texture (layer_objs s' ! 0) = texture (layer_objs s' ! 2) \<and>
         texture (layer_objs s' ! 0) \<noteq> texture (layer_objs s' ! 1))"
proof -
  have d: "distinct (concat (map entry_layers (pending wit_pending_state)))"
    by (simp add: wit_pending_state_def)
  have e: "(8, wit_key True False, [0, 1, 2]) \<in> set (pending wit_pending_state)"
    by (simp add: wit_pending_state_def)
  have pg: "get_textures_page wit_env 0 = get_textures_page wit_env 2"
    "get_textures_page wit_env 0 \<noteq> get_textures_page wit_env 1"
    by (simp_all add: wit_env_def)
  have len: "0 < length (layer_objs wit_pending_state)" "1 < length (layer_objs wit_pending_state)"
    "2 < length (layer_objs wit_pending_state)"
    by (simp_all add: wit_pending_state_def)
  have mem: "(0::nat) \<in> set [0, 1, 2]" "(1::nat) \<in> set [0, 1, 2]" "(2::nat) \<in> set [0, 1, 2]"
    by simp_all
  from wit_finalize_runs obtain s' where r: "finalize wit_env wit_pending_state = Inr s'" by blast
  from finalize_bitmap_sharing[OF r d e mem(1) mem(3) len(1) len(3)] pg(1)
  have same: "texture (layer_objs s' ! 0) = texture (layer_objs s' ! 2)" by auto
  from finalize_bitmap_sharing[OF r d e mem(1) mem(2) len(1) len(2)] pg(2)
  have diff: "texture (layer_objs s' ! 0) \<noteq> texture (layer_objs s' ! 1)" by auto
  show ?thesis using d e pg r same diff by blast
qed

end
